theory Spec2Isabelle
  imports Main "HOL-Library.Multiset"
begin

section \<open>Data model\<close>

text \<open>
  Timestamps are Python \<open>datetime\<close> values; they are modelled as an integer count of
  microseconds (the resolution of \<open>datetime\<close> and \<open>timedelta\<close>), so that subtraction
  and comparison are exact. The clock \<open>timezone.now()\<close> is an explicit parameter.
  Database tables are lists of rows, in the order in which the database returns them
  when a query gives no further ordering. Primary keys and UUIDs are natural numbers.
  A JSON object is an association list from keys to values.
\<close>

type_synonym timestamp = int

type_synonym json = "(string \<times> string) list"

text \<open>\<open>devices/models.py\<close>, class \<open>Device\<close> (the fields the views below read or write).\<close>

record device =
  d_pk :: nat
  device_id :: nat
  d_name :: string
  hostname :: string
  ip_address :: "string option"
  mac_address :: string
  os_version :: string
  agent_version :: string
  d_status :: string
  is_locked :: bool
  last_seen :: "timestamp option"
  registered_at :: timestamp
  last_lock_time :: "timestamp option"
  last_unlock_time :: "timestamp option"
  hardware_info :: json
  d_is_active :: bool

section \<open>Presence: \<open>Device.is_online\<close>\<close>

text \<open>\<open>timedelta(minutes=5)\<close>, in microseconds.\<close>

definition five_minutes :: int where
  "five_minutes = 5 * 60 * 1000000"

text \<open>
  \<open>Device.is_online\<close>: \<open>False\<close> when \<open>last_seen\<close> is null, otherwise
  \<open>timezone.now() - self.last_seen < timedelta(minutes=5)\<close>.
\<close>

definition is_online :: "device \<Rightarrow> timestamp \<Rightarrow> bool" where
  "is_online d now =
     (case last_seen d of
        None \<Rightarrow> False
      | Some t \<Rightarrow> now - t < five_minutes)"

section \<open>Policy store\<close>

text \<open>
  \<open>policies/models.py\<close>, class \<open>Policy\<close>: the bounded numeric settings, the scope tag,
  the priority, the active flag and the creation time. The remaining settings (hotkey,
  lock message, toggles) are stored and returned unchanged and play no part below.
\<close>

record policy =
  p_id :: nat
  p_name :: string
  p_scope :: string
  idle_timeout_seconds :: int
  max_unlock_attempts :: int
  lockout_duration_minutes :: int
  heartbeat_interval_seconds :: int
  p_is_active :: bool
  priority :: int
  p_created_at :: timestamp

text \<open>
  \<open>policies/models.py\<close>, class \<open>PolicyAssignment\<close>: the foreign keys hold the primary
  key of the row they point to; \<open>device\<close> and \<open>device_group\<close> are nullable.
\<close>

record policy_assignment =
  a_id :: nat
  a_policy :: nat
  a_device :: "nat option"
  a_device_group :: "nat option"
  a_is_active :: bool

text \<open>
  \<open>devices/models.py\<close>, class \<open>DeviceGroup\<close>; its many-to-many field \<open>devices\<close> is the
  membership table of the store below.
\<close>

record device_group =
  g_id :: nat
  g_name :: string

text \<open>\<open>devices/models.py\<close>, class \<open>DeviceAction\<close>.\<close>

record device_action =
  act_id :: nat
  act_device :: nat
  action_type :: string
  initiated_by :: "nat option"
  act_status :: string
  reason :: string
  act_metadata :: json
  act_created_at :: timestamp
  completed_at :: "timestamp option"

text \<open>\<open>authentication/models.py\<close>, class \<open>User\<close>.\<close>

record user =
  u_id :: nat
  username :: string
  role :: string

text \<open>
  \<open>events/models.py\<close>, class \<open>Event\<close>; \<open>device\<close> and \<open>user\<close> are nullable foreign
  keys.
\<close>

record event =
  event_type :: string
  ev_device :: "nat option"
  ev_user :: "nat option"
  severity :: string
  message :: string
  ev_source :: string

text \<open>\<open>events/models.py\<close>, class \<open>DeviceHeartbeat\<close>.\<close>

record device_heartbeat =
  hb_device :: nat
  hb_timestamp :: timestamp
  hb_status :: string
  hb_is_locked :: bool
  hb_agent_version :: string
  hb_metadata :: json

text \<open>
  The database: one list of rows per table, in insertion order.
  \<open>device_groups_devices\<close> is the membership table of \<open>DeviceGroup.devices\<close>, its rows the
  pairs of a group's and a device's primary key; \<open>device_tokens\<close> holds the pairs of a
  device's primary key and its token. The \<open>seq\<close> fields are the auto-increment
  counters of the tables whose rows the views below create: the largest primary key
  handed out so far, which a deletion does not lower.
\<close>

record store =
  devices :: "device list"
  device_groups :: "device_group list"
  device_groups_devices :: "(nat \<times> nat) list"
  policies :: "policy list"
  policy_assignments :: "policy_assignment list"
  device_actions :: "device_action list"
  device_tokens :: "(nat \<times> string) list"
  events :: "event list"
  heartbeats :: "device_heartbeat list"
  seq_devices :: nat
  seq_policies :: nat
  seq_policy_assignments :: nat
  seq_device_actions :: nat

section \<open>Policy resolution: \<open>device_policy\<close>\<close>

text \<open>
  \<open>QuerySet.order_by('-key')\<close>: the rows sorted by the key, descending. The query names
  no second key, so rows with equal keys stay in the order in which the database reaches
  them (the sort is stable): the row order of the table for a query on one table, the
  order of the join for \<open>group_policies\<close>.
\<close>

definition order_by_desc :: "('a \<Rightarrow> int) \<Rightarrow> 'a list \<Rightarrow> 'a list" where
  "order_by_desc key rows = sort_key (\<lambda>r. - key r) rows"

text \<open>Following the foreign key \<open>assignment.policy\<close>.\<close>

definition policy_of :: "store \<Rightarrow> policy_assignment \<Rightarrow> policy option" where
  "policy_of s a = find (\<lambda>p. p_id p = a_policy a) (policies s)"

text \<open>The lookups \<open>policy__is_active=True\<close> and \<open>policy__priority\<close> through the join.\<close>

definition policy__is_active :: "store \<Rightarrow> policy_assignment \<Rightarrow> bool" where
  "policy__is_active s a = (case policy_of s a of None \<Rightarrow> False | Some p \<Rightarrow> p_is_active p)"

definition policy__priority :: "store \<Rightarrow> policy_assignment \<Rightarrow> int" where
  "policy__priority s a = (case policy_of s a of None \<Rightarrow> 0 | Some p \<Rightarrow> priority p)"

text \<open>
  The lookup \<open>device_group__devices=device\<close>: the join of the assignments with the
  groups and the membership table. The database walks the membership rows of the device
  in the order of the membership table and, for each, the assignments to that row's
  group in the order of the assignment table.
\<close>

definition device_group__devices :: "store \<Rightarrow> nat \<Rightarrow> policy_assignment list" where
  "device_group__devices s dpk =
     concat
       (map (\<lambda>(g, d).
               if d = dpk \<and> list_ex (\<lambda>grp. g_id grp = g) (device_groups s)
               then filter (\<lambda>a. a_device_group a = Some g) (policy_assignments s)
               else [])
          (device_groups_devices s))"

text \<open>The three querysets of \<open>device_policy\<close>, for the device with primary key \<open>dpk\<close>.\<close>

definition device_policies :: "store \<Rightarrow> nat \<Rightarrow> policy_assignment list" where
  "device_policies s dpk =
     order_by_desc (policy__priority s)
       (filter (\<lambda>a. a_device a = Some dpk \<and> a_is_active a \<and> policy__is_active s a)
          (policy_assignments s))"

definition group_policies :: "store \<Rightarrow> nat \<Rightarrow> policy_assignment list" where
  "group_policies s dpk =
     order_by_desc (policy__priority s)
       (filter (\<lambda>a. a_is_active a \<and> policy__is_active s a)
          (device_group__devices s dpk))"

definition global_policies :: "store \<Rightarrow> policy list" where
  "global_policies s =
     order_by_desc priority
       (filter (\<lambda>p. p_scope p = ''global'' \<and> p_is_active p) (policies s))"

text \<open>
  \<open>assignment.policy\<close> for each row of a queryset (\<open>select_related('policy')\<close>); the
  filter \<open>policy__is_active\<close> has kept only rows whose policy exists.
\<close>

definition assigned_policies :: "store \<Rightarrow> policy_assignment list \<Rightarrow> policy list" where
  "assigned_policies s as = List.map_filter (policy_of s) as"

text \<open>
  \<open>policy not in all_policies\<close>: Django compares model instances by primary key.
\<close>

definition not_in :: "policy \<Rightarrow> policy list \<Rightarrow> bool" where
  "not_in p all_policies = (p_id p \<notin> p_id ` set all_policies)"

text \<open>The first loop: \<open>for assignment in device_policies: all_policies.append(...)\<close>.\<close>

fun append_all :: "policy list \<Rightarrow> policy list \<Rightarrow> policy list" where
  "append_all all_policies [] = all_policies"
| "append_all all_policies (p # ps) = append_all (all_policies @ [p]) ps"

text \<open>
  The second and third loops:
  \<open>for ...: if policy not in all_policies: all_policies.append(policy)\<close>.
\<close>

fun append_new :: "policy list \<Rightarrow> policy list \<Rightarrow> policy list" where
  "append_new all_policies [] = all_policies"
| "append_new all_policies (p # ps) =
     (if not_in p all_policies then append_new (all_policies @ [p]) ps
      else append_new all_policies ps)"

definition all_policies :: "store \<Rightarrow> nat \<Rightarrow> policy list" where
  "all_policies s dpk =
     append_new
       (append_new
          (append_all [] (assigned_policies s (device_policies s dpk)))
          (assigned_policies s (group_policies s dpk)))
       (global_policies s)"

datatype http_error = Http400 | Http403 | Http404 | Http500

record policy_response =
  r_device_id :: nat
  effective_policy :: "policy option"
  applied_policies :: "policy list"
  last_updated :: timestamp

text \<open>\<open>get_object_or_404(Device, device_id=device_id)\<close>.\<close>

definition get_device :: "store \<Rightarrow> nat \<Rightarrow> device option" where
  "get_device s did = find (\<lambda>d. device_id d = did) (devices s)"

text \<open>
  The view \<open>device_policy\<close>. \<open>Device\<close> has no \<open>updated_at\<close>, so both branches report
  \<open>registered_at\<close>; a model instance is always truthy, so the \<open>else\<close> branch is taken
  exactly when \<open>all_policies\<close> is empty.
\<close>

definition device_policy :: "store \<Rightarrow> nat \<Rightarrow> http_error + policy_response" where
  "device_policy s did =
     (case get_device s did of
        None \<Rightarrow> Inl Http404
      | Some d \<Rightarrow>
          (case all_policies s (d_pk d) of
             [] \<Rightarrow> Inr \<lparr>r_device_id = did, effective_policy = None,
                       applied_policies = [], last_updated = registered_at d\<rparr>
           | p # ps \<Rightarrow> Inr \<lparr>r_device_id = did, effective_policy = Some p,
                           applied_policies = p # ps, last_updated = registered_at d\<rparr>))"

text \<open>
  The constraint \<open>unique_together = [('policy', 'device'), ('policy', 'device_group')]\<close>
  of \<open>PolicyAssignment.Meta\<close>; as in SQL, rows whose target column is null never
  collide.
\<close>

definition unique_together :: "policy_assignment list \<Rightarrow> bool" where
  "unique_together as =
     (distinct (map (\<lambda>a. (a_policy a, a_device a)) (filter (\<lambda>a. a_device a \<noteq> None) as))
      \<and> distinct (map (\<lambda>a. (a_policy a, a_device_group a))
                    (filter (\<lambda>a. a_device_group a \<noteq> None) as)))"

text \<open>
  The specification's wording of the result: a list deduplicated by policy identity,
  each policy kept at its first position.
\<close>

fun dedup_by_identity :: "policy list \<Rightarrow> policy list" where
  "dedup_by_identity [] = []"
| "dedup_by_identity (p # ps) = p # dedup_by_identity (filter (\<lambda>q. p_id q \<noteq> p_id p) ps)"

text \<open>The three tiers, as lists of policies in query order.\<close>

definition device_tier :: "store \<Rightarrow> nat \<Rightarrow> policy list" where
  "device_tier s dpk = assigned_policies s (device_policies s dpk)"

definition group_tier :: "store \<Rightarrow> nat \<Rightarrow> policy list" where
  "group_tier s dpk = assigned_policies s (group_policies s dpk)"

definition global_tier :: "store \<Rightarrow> policy list" where
  "global_tier s = global_policies s"

section \<open>Example data\<close>

text \<open>
  One device in one group, with a global policy \<open>P0\<close> (priority 1), a policy \<open>P1\<close>
  (priority 5) assigned to the group and a policy \<open>P2\<close> (priority 0) assigned to the
  device itself.
\<close>

definition ex_device :: device where
  "ex_device =
     \<lparr>d_pk = 1, device_id = 101, d_name = ''pc-1'', hostname = ''pc-1.lan'',
      ip_address = None, mac_address = ''00:11:22:33:44:55'', os_version = ''Windows 11'', agent_version = ''1.0'',
      d_status = ''offline'', is_locked = False, last_seen = Some 0, registered_at = 0,
      last_lock_time = None, last_unlock_time = None, hardware_info = [(''cpu'', ''i5'')],
      d_is_active = True\<rparr>"

definition ex_policy :: "nat \<Rightarrow> string \<Rightarrow> int \<Rightarrow> timestamp \<Rightarrow> policy" where
  "ex_policy i sc pr t =
     \<lparr>p_id = i, p_name = ''policy'', p_scope = sc, idle_timeout_seconds = 300,
      max_unlock_attempts = 3, lockout_duration_minutes = 15,
      heartbeat_interval_seconds = 60, p_is_active = True, priority = pr,
      p_created_at = t\<rparr>"

definition ex_store :: store where
  "ex_store =
     \<lparr>devices = [ex_device],
      device_groups = [\<lparr>g_id = 1, g_name = ''office''\<rparr>],
      device_groups_devices = [(1, 1)],
      policies = [ex_policy 10 ''global'' 1 100, ex_policy 11 ''group'' 5 200,
                  ex_policy 12 ''device'' 0 300],
      policy_assignments =
        [\<lparr>a_id = 1, a_policy = 11, a_device = None, a_device_group = Some 1, a_is_active = True\<rparr>,
         \<lparr>a_id = 2, a_policy = 12, a_device = Some 1, a_device_group = None, a_is_active = True\<rparr>],
      device_actions = [],
      device_tokens = [],
      events = [],
      heartbeats = [],
      seq_devices = 1, seq_policies = 12, seq_policy_assignments = 2,
      seq_device_actions = 0\<rparr>"

text \<open>
  Two policies of equal priority assigned to the same device: policy 20 was created
  first (at time 100), policy 21 later (at time 200); the assignment rows are in the
  order in which they were inserted.
\<close>

definition tie_store :: store where
  "tie_store =
     \<lparr>devices = [ex_device],
      device_groups = [],
      device_groups_devices = [],
      policies = [ex_policy 20 ''device'' 5 100, ex_policy 21 ''device'' 5 200],
      policy_assignments =
        [\<lparr>a_id = 1, a_policy = 20, a_device = Some 1, a_device_group = None, a_is_active = True\<rparr>,
         \<lparr>a_id = 2, a_policy = 21, a_device = Some 1, a_device_group = None, a_is_active = True\<rparr>],
      device_actions = [],
      device_tokens = [],
      events = [],
      heartbeats = [],
      seq_devices = 1, seq_policies = 21, seq_policy_assignments = 2,
      seq_device_actions = 0\<rparr>"

text \<open>
  A device with an active assignment of policy 30, which is itself inactive, and an
  active global policy 31.
\<close>

definition inactive_store :: store where
  "inactive_store =
     \<lparr>devices = [ex_device],
      device_groups = [],
      device_groups_devices = [],
      policies = [(ex_policy 30 ''device'' 9 100)\<lparr>p_is_active := False\<rparr>,
                  ex_policy 31 ''global'' 1 200],
      policy_assignments =
        [\<lparr>a_id = 1, a_policy = 30, a_device = Some 1, a_device_group = None, a_is_active = True\<rparr>],
      device_actions = [],
      device_tokens = [],
      events = [],
      heartbeats = [],
      seq_devices = 1, seq_policies = 31, seq_policy_assignments = 1,
      seq_device_actions = 0\<rparr>"

section \<open>Deleting a policy: \<open>api_policy_detail\<close>, method DELETE\<close>

record json_response =
  success :: bool
  http_status :: nat

text \<open>
  \<open>policy.delete()\<close>: the only foreign key to \<open>Policy\<close> is \<open>PolicyAssignment.policy\<close>,
  declared \<open>on_delete=models.CASCADE\<close>, so the rows that reference the policy are deleted
  with it.
\<close>

definition policy_delete :: "store \<Rightarrow> policy \<Rightarrow> store" where
  "policy_delete s p =
     s\<lparr>policy_assignments := filter (\<lambda>a. a_policy a \<noteq> p_id p) (policy_assignments s),
       policies := filter (\<lambda>q. p_id q \<noteq> p_id p) (policies s)\<rparr>"

text \<open>
  \<open>Policy.objects.get(id=policy_id)\<close>, then the DELETE branch. \<open>Policy\<close> has no attribute
  \<open>is_system_policy\<close>, so the 403 branch is never taken, and \<open>delete()\<close> raises nothing.
\<close>

definition api_policy_detail_DELETE :: "store \<Rightarrow> nat \<Rightarrow> store \<times> json_response" where
  "api_policy_detail_DELETE s policy_id =
     (case find (\<lambda>p. p_id p = policy_id) (policies s) of
        None \<Rightarrow> (s, \<lparr>success = False, http_status = 404\<rparr>)
      | Some p \<Rightarrow> (policy_delete s p, \<lparr>success = True, http_status = 200\<rparr>))"

section \<open>Policy assignments: create and update\<close>

datatype py_exception =
  ValidationError string
  | IntegrityError
  | TypeError string
  | ValueError string
  | AttributeError string

text \<open>
  The attributes of a new assignment after the field lookups of the serializer: a
  related object is held by its primary key, a target that is null or absent is \<open>None\<close>.
\<close>

record assignment_attrs =
  at_policy :: nat
  at_device :: "nat option"
  at_device_group :: "nat option"
  at_is_active :: bool

text \<open>
  \<open>PolicyAssignmentCreateSerializer.validate\<close>. A model instance is truthy, so
  \<open>not device\<close> holds exactly when the target is null.
\<close>

definition validate :: "assignment_attrs \<Rightarrow> py_exception + assignment_attrs" where
  "validate attrs =
     (if at_device attrs = None \<and> at_device_group attrs = None
      then Inl (ValidationError ''Either device or device_group must be specified'')
      else if at_device attrs \<noteq> None \<and> at_device_group attrs \<noteq> None
      then Inl (ValidationError ''Cannot specify both device and device_group'')
      else Inr attrs)"

text \<open>
  Whether a row with these columns would collide, under \<open>unique_together\<close>, with one of
  the given rows; null targets never collide.
\<close>

definition violates_unique_together ::
  "policy_assignment list \<Rightarrow> nat \<Rightarrow> nat option \<Rightarrow> nat option \<Rightarrow> bool" where
  "violates_unique_together rows pol dev grp =
     ((dev \<noteq> None \<and> list_ex (\<lambda>a. a_policy a = pol \<and> a_device a = dev) rows)
      \<or> (grp \<noteq> None \<and> list_ex (\<lambda>a. a_policy a = pol \<and> a_device_group a = grp) rows))"

text \<open>The related objects named by the attributes exist.\<close>

definition related_exist :: "store \<Rightarrow> assignment_attrs \<Rightarrow> bool" where
  "related_exist s attrs =
     (list_ex (\<lambda>p. p_id p = at_policy attrs) (policies s)
      \<and> (case at_device attrs of
            None \<Rightarrow> True
          | Some d \<Rightarrow> list_ex (\<lambda>x. d_pk x = d) (devices s))
      \<and> (case at_device_group attrs of
            None \<Rightarrow> True
          | Some g \<Rightarrow> list_ex (\<lambda>x. g_id x = g) (device_groups s)))"

text \<open>
  An auto-incremented primary key: one more than the largest key the table has ever
  held, that is, than the table's counter and the keys now present. The row that
  receives the key also sets the counter to it.
\<close>

definition next_pk :: "nat \<Rightarrow> nat list \<Rightarrow> nat" where
  "next_pk seq ids = Suc (max seq (fold max ids 0))"

text \<open>
  \<open>PolicyAssignmentListCreateView\<close>, method POST, with
  \<open>PolicyAssignmentCreateSerializer\<close>: the field lookups, the uniqueness validators
  derived from \<open>Meta.unique_together\<close>, then \<open>validate\<close>; any failure is a 400 response
  and nothing is saved.
\<close>

definition PolicyAssignmentListCreateView_POST ::
  "store \<Rightarrow> assignment_attrs \<Rightarrow> store \<times> (http_error + policy_assignment)" where
  "PolicyAssignmentListCreateView_POST s attrs =
     (if \<not> related_exist s attrs then (s, Inl Http400)
      else if violates_unique_together (policy_assignments s)
                (at_policy attrs) (at_device attrs) (at_device_group attrs)
      then (s, Inl Http400)
      else
        (case validate attrs of
           Inl e \<Rightarrow> (s, Inl Http400)
         | Inr attrs' \<Rightarrow>
             (let row = \<lparr>a_id = next_pk (seq_policy_assignments s)
                                  (map a_id (policy_assignments s)),
                         a_policy = at_policy attrs', a_device = at_device attrs',
                         a_device_group = at_device_group attrs',
                         a_is_active = at_is_active attrs'\<rparr>
              in (s\<lparr>policy_assignments := policy_assignments s @ [row],
                    seq_policy_assignments := a_id row\<rparr>,
                  Inr row))))"

text \<open>
  The body of an update. \<open>PolicyAssignmentSerializer\<close> declares \<open>policy\<close> and \<open>device\<close>
  read-only, so the writable fields are \<open>device_group\<close> (a key that is absent, null, or
  a primary key) and \<open>is_active\<close>.
\<close>

record assignment_update =
  up_device_group :: "nat option option"
  up_is_active :: "bool option"

text \<open>
  \<open>PolicyAssignmentDetailView\<close>, method PATCH, with \<open>PolicyAssignmentSerializer\<close>,
  which has no \<open>validate\<close>: the writable fields present in the body are stored. A collision with \<open>unique_together\<close> is the database's
  \<open>IntegrityError\<close>, which nothing catches (status 500).
\<close>

definition PolicyAssignmentDetailView_PATCH ::
  "store \<Rightarrow> nat \<Rightarrow> assignment_update \<Rightarrow> store \<times> (http_error + policy_assignment)" where
  "PolicyAssignmentDetailView_PATCH s pk data =
     (case find (\<lambda>a. a_id a = pk) (policy_assignments s) of
        None \<Rightarrow> (s, Inl Http404)
      | Some a \<Rightarrow>
          (let a' = a\<lparr>a_device_group :=
                         (case up_device_group data of None \<Rightarrow> a_device_group a | Some v \<Rightarrow> v),
                      a_is_active :=
                         (case up_is_active data of None \<Rightarrow> a_is_active a | Some b \<Rightarrow> b)\<rparr>
           in if (case a_device_group a' of
                    None \<Rightarrow> False
                  | Some g \<Rightarrow> \<not> list_ex (\<lambda>x. g_id x = g) (device_groups s))
              then (s, Inl Http400)
              else if violates_unique_together
                        (filter (\<lambda>b. a_id b \<noteq> pk) (policy_assignments s))
                        (a_policy a') (a_device a') (a_device_group a')
              then (s, Inl Http500)
              else (s\<lparr>policy_assignments :=
                         map (\<lambda>b. if a_id b = pk then a' else b) (policy_assignments s)\<rparr>,
                    Inr a')))"

section \<open>Creating and updating a policy: \<open>api_policies_list\<close>, \<open>api_policy_detail\<close>\<close>

text \<open>
  The JSON body of the request, for the keys the views read: a key that is absent is
  \<open>None\<close>, a key that is present carries a value of the field's type.
\<close>

record policy_data =
  pd_name :: "string option"
  pd_scope :: "string option"
  pd_priority :: "int option"
  pd_is_active :: "bool option"
  pd_idle_timeout_seconds :: "int option"
  pd_max_unlock_attempts :: "int option"
  pd_lockout_duration_minutes :: "int option"
  pd_heartbeat_interval_seconds :: "int option"

text \<open>\<open>data.get(key, default)\<close>.\<close>

definition dict_get :: "'a option \<Rightarrow> 'a \<Rightarrow> 'a" where
  "dict_get v dflt = (case v of None \<Rightarrow> dflt | Some x \<Rightarrow> x)"

text \<open>
  The validators declared on the numeric fields of \<open>Policy\<close>
  (\<open>MinValueValidator\<close>, \<open>MaxValueValidator\<close>). Django runs them in \<open>full_clean()\<close>, in
  model forms and in model serializers, not in \<open>objects.create()\<close> or \<open>save()\<close>.
\<close>

definition field_validators :: "policy \<Rightarrow> bool" where
  "field_validators p =
     (30 \<le> idle_timeout_seconds p \<and> idle_timeout_seconds p \<le> 86400
      \<and> 1 \<le> max_unlock_attempts p \<and> max_unlock_attempts p \<le> 10
      \<and> 1 \<le> lockout_duration_minutes p \<and> lockout_duration_minutes p \<le> 1440
      \<and> 30 \<le> heartbeat_interval_seconds p \<and> heartbeat_interval_seconds p \<le> 3600)"

text \<open>
  An integer column holds a signed 64-bit value; writing a Python integer outside that
  range raises \<open>OverflowError\<close>, and the row is not written.
\<close>

definition db_integer :: "int \<Rightarrow> bool" where
  "db_integer i = (- (2 ^ 63) \<le> i \<and> i < 2 ^ 63)"

definition integers_fit :: "policy \<Rightarrow> bool" where
  "integers_fit p =
     (db_integer (idle_timeout_seconds p) \<and> db_integer (max_unlock_attempts p)
      \<and> db_integer (lockout_duration_minutes p) \<and> db_integer (heartbeat_interval_seconds p)
      \<and> db_integer (priority p))"

text \<open>
  \<open>api_policies_list\<close>, method POST: \<open>data['name']\<close> and \<open>data['scope']\<close> raise
  \<open>KeyError\<close> when absent, and an integer that does not fit its column raises when
  the row is written (status 400, nothing stored); otherwise
  \<open>Policy.objects.create(...)\<close> stores the values as given and the answer is a success
  (status 200).
\<close>

definition api_policies_list_POST ::
  "store \<Rightarrow> policy_data \<Rightarrow> timestamp \<Rightarrow> store \<times> json_response" where
  "api_policies_list_POST s data now =
     (case pd_name data of
        None \<Rightarrow> (s, \<lparr>success = False, http_status = 400\<rparr>)
      | Some n \<Rightarrow>
          (case pd_scope data of
             None \<Rightarrow> (s, \<lparr>success = False, http_status = 400\<rparr>)
           | Some sc \<Rightarrow>
               (let p = \<lparr>p_id = next_pk (seq_policies s) (map p_id (policies s)),
                         p_name = n,
                         p_scope = sc,
                         idle_timeout_seconds = dict_get (pd_idle_timeout_seconds data) 300,
                         max_unlock_attempts = dict_get (pd_max_unlock_attempts data) 3,
                         lockout_duration_minutes = dict_get (pd_lockout_duration_minutes data) 15,
                         heartbeat_interval_seconds =
                           dict_get (pd_heartbeat_interval_seconds data) 60,
                         p_is_active = dict_get (pd_is_active data) True,
                         priority = dict_get (pd_priority data) 0,
                         p_created_at = now\<rparr>
                in if \<not> integers_fit p
                   then (s, \<lparr>success = False, http_status = 400\<rparr>)
                   else (s\<lparr>policies := policies s @ [p], seq_policies := p_id p\<rparr>,
                         \<lparr>success = True, http_status = 200\<rparr>))))"

text \<open>
  \<open>api_policy_detail\<close>, method PUT: each field becomes
  \<open>data.get(key, policy.field)\<close>, then \<open>policy.save()\<close>, which raises when an integer
  does not fit its column (status 400, nothing stored).
\<close>

definition api_policy_detail_PUT ::
  "store \<Rightarrow> nat \<Rightarrow> policy_data \<Rightarrow> store \<times> json_response" where
  "api_policy_detail_PUT s policy_id data =
     (case find (\<lambda>p. p_id p = policy_id) (policies s) of
        None \<Rightarrow> (s, \<lparr>success = False, http_status = 404\<rparr>)
      | Some policy \<Rightarrow>
          (let p = policy
                \<lparr>p_name := dict_get (pd_name data) (p_name policy),
                 p_scope := dict_get (pd_scope data) (p_scope policy),
                 priority := dict_get (pd_priority data) (priority policy),
                 p_is_active := dict_get (pd_is_active data) (p_is_active policy),
                 idle_timeout_seconds :=
                   dict_get (pd_idle_timeout_seconds data) (idle_timeout_seconds policy),
                 max_unlock_attempts :=
                   dict_get (pd_max_unlock_attempts data) (max_unlock_attempts policy),
                 lockout_duration_minutes :=
                   dict_get (pd_lockout_duration_minutes data) (lockout_duration_minutes policy),
                 heartbeat_interval_seconds :=
                   dict_get (pd_heartbeat_interval_seconds data)
                     (heartbeat_interval_seconds policy)\<rparr>
           in if \<not> integers_fit p
              then (s, \<lparr>success = False, http_status = 400\<rparr>)
              else (s\<lparr>policies :=
                         map (\<lambda>q. if p_id q = policy_id then p else q) (policies s)\<rparr>,
                    \<lparr>success = True, http_status = 200\<rparr>)))"

text \<open>A request body whose four bounded settings are all out of range.\<close>

definition out_of_range_data :: policy_data where
  "out_of_range_data =
     \<lparr>pd_name = Some ''kiosk'', pd_scope = Some ''global'', pd_priority = None,
      pd_is_active = None, pd_idle_timeout_seconds = Some 5,
      pd_max_unlock_attempts = Some 0, pd_lockout_duration_minutes = Some 2000,
      pd_heartbeat_interval_seconds = Some 10\<rparr>"

section \<open>Device actions: \<open>DeviceAction\<close>\<close>

text \<open>\<open>d[key] = value\<close> on a JSON object: replace the value in place, or add the key.\<close>

fun dict_set :: "string \<Rightarrow> string \<Rightarrow> json \<Rightarrow> json" where
  "dict_set k v [] = [(k, v)]"
| "dict_set k v ((k', v') # m) = (if k' = k then (k, v) # m else (k', v') # dict_set k v m)"

text \<open>\<open>d.update(other)\<close>.\<close>

definition dict_update :: "json \<Rightarrow> json \<Rightarrow> json" where
  "dict_update d other = fold (\<lambda>(k, v) m. dict_set k v m) other d"

text \<open>\<open>DeviceAction.mark_completed\<close>; the result is the row as saved.\<close>

definition mark_completed :: "device_action \<Rightarrow> timestamp \<Rightarrow> device_action" where
  "mark_completed a now = a\<lparr>act_status := ''completed'', completed_at := Some now\<rparr>"

text \<open>
  \<open>DeviceAction.mark_failed\<close>; \<open>if error_message\<close> is false for \<open>None\<close> and for the
  empty string.
\<close>

definition mark_failed :: "device_action \<Rightarrow> string option \<Rightarrow> timestamp \<Rightarrow> device_action" where
  "mark_failed a error_message now =
     a\<lparr>act_status := ''failed'',
       completed_at := Some now,
       act_metadata :=
         (case error_message of
            None \<Rightarrow> act_metadata a
          | Some m \<Rightarrow> if m = [] then act_metadata a else dict_set ''error'' m (act_metadata a))\<rparr>"

text \<open>\<open>DeviceAction.STATUS_CHOICES\<close>, and the three statuses the specification calls terminal.\<close>

definition STATUS_CHOICES :: "string list" where
  "STATUS_CHOICES = [''pending'', ''sent'', ''acknowledged'', ''completed'', ''failed'', ''timeout'']"

definition terminal :: "string \<Rightarrow> bool" where
  "terminal st = (st = ''completed'' \<or> st = ''failed'' \<or> st = ''timeout'')"

text \<open>
  \<open>DeviceActionDetailView\<close> (retrieve and update) with \<open>DeviceActionModelSerializer\<close>:
  \<open>status\<close> is a writable choice field, so an update that names one of the status
  choices stores it; any other value is a 400 response.
\<close>

definition DeviceActionDetailView_PATCH_status ::
  "device_action \<Rightarrow> string \<Rightarrow> http_error + device_action" where
  "DeviceActionDetailView_PATCH_status a st =
     (if st \<in> set STATUS_CHOICES then Inr (a\<lparr>act_status := st\<rparr>) else Inl Http400)"

text \<open>A lock action that completed at time 50.\<close>

definition ex_action :: device_action where
  "ex_action =
     \<lparr>act_id = 1, act_device = 1, action_type = ''lock'', initiated_by = None,
      act_status = ''completed'', reason = ''Manual lock'', act_metadata = [],
      act_created_at = 10, completed_at = Some 50\<rparr>"

section \<open>Heartbeats: \<open>device_heartbeat\<close>, \<open>Device.update_heartbeat\<close>\<close>

text \<open>
  The validated data of \<open>DeviceHeartbeatSerializer\<close>: \<open>status\<close> and \<open>is_locked\<close> are
  required, \<open>agent_version\<close> and \<open>metadata\<close> optional. The optional usage figures
  (floating point) are copied to the heartbeat row only and are left out.
\<close>

record heartbeat_data =
  hd_status :: string
  hd_is_locked :: bool
  hd_agent_version :: "string option"
  hd_metadata :: "json option"

text \<open>\<open>device.save()\<close>: write the instance back to its row.\<close>

definition device_save :: "store \<Rightarrow> device \<Rightarrow> store" where
  "device_save s d = s\<lparr>devices := map (\<lambda>x. if d_pk x = d_pk d then d else x) (devices s)\<rparr>"

text \<open>
  The view \<open>device_heartbeat\<close>; the body is \<open>None\<close> when \<open>serializer.is_valid()\<close> fails.
  The result is the new store and the status code.
\<close>

definition device_heartbeat ::
  "store \<Rightarrow> nat \<Rightarrow> heartbeat_data option \<Rightarrow> timestamp \<Rightarrow> store \<times> nat" where
  "device_heartbeat s did body now =
     (case get_device s did of
        None \<Rightarrow> (s, 404)
      | Some device \<Rightarrow>
          (case body of
             None \<Rightarrow> (s, 400)
           | Some data \<Rightarrow>
               (let device' = device\<lparr>d_status := hd_status data,
                                     is_locked := hd_is_locked data,
                                     last_seen := Some now\<rparr>;
                    s1 = device_save s device';
                    hb = \<lparr>hb_device = d_pk device, hb_timestamp = now,
                          hb_status = hd_status data, hb_is_locked = hd_is_locked data,
                          hb_agent_version = dict_get (hd_agent_version data) '''',
                          hb_metadata = dict_get (hd_metadata data) []\<rparr>
                in (s1\<lparr>heartbeats := heartbeats s1 @ [hb]\<rparr>, 200))))"

text \<open>The \<open>agent_data\<close> dictionary of \<open>Device.update_heartbeat\<close>, for the keys it reads.\<close>

record agent_data =
  ad_agent_version :: "string option"
  ad_hardware_info :: "json option"
  ad_ip_address :: "string option"

text \<open>
  \<open>Device.update_heartbeat\<close>; the result is the instance as saved. An empty
  \<open>agent_data\<close> is falsy and has none of the keys, so both readings agree.
\<close>

definition update_heartbeat :: "device \<Rightarrow> agent_data option \<Rightarrow> timestamp \<Rightarrow> device" where
  "update_heartbeat self agent now =
     (let d1 = self\<lparr>last_seen := Some now, d_status := ''online''\<rparr>
      in case agent of
           None \<Rightarrow> d1
         | Some ad \<Rightarrow>
             d1\<lparr>agent_version := dict_get (ad_agent_version ad) (agent_version d1),
                hardware_info :=
                  (case ad_hardware_info ad of
                     None \<Rightarrow> hardware_info d1
                   | Some h \<Rightarrow> dict_update (hardware_info d1) h),
                ip_address :=
                  (case ad_ip_address ad of None \<Rightarrow> ip_address d1 | Some ip \<Rightarrow> Some ip)\<rparr>)"

definition ex_heartbeat :: heartbeat_data where
  "ex_heartbeat =
     \<lparr>hd_status = ''online'', hd_is_locked = True, hd_agent_version = None,
      hd_metadata = Some [(''ram'', ''8GB'')]\<rparr>"

section \<open>Registration: \<open>DeviceListCreateView\<close>, method POST\<close>

text \<open>The validated data of \<open>DeviceCreateSerializer\<close> (without the pairing token).\<close>

record device_create_data =
  cd_name :: string
  cd_hostname :: string
  cd_ip_address :: "string option"
  cd_mac_address :: string
  cd_os_version :: string
  cd_agent_version :: string
  cd_hardware_info :: json

text \<open>
  The row that \<open>serializer.save()\<close> writes: the validated data, the model's defaults
  for the other fields, the next primary key, and \<open>uuid.uuid4()\<close> as \<open>device_id\<close>.
\<close>

definition new_device :: "store \<Rightarrow> device_create_data \<Rightarrow> nat \<Rightarrow> timestamp \<Rightarrow> device" where
  "new_device s data uuid4 now =
     \<lparr>d_pk = next_pk (seq_devices s) (map d_pk (devices s)), device_id = uuid4,
      d_name = cd_name data, hostname = cd_hostname data,
      ip_address = cd_ip_address data, mac_address = cd_mac_address data,
      os_version = cd_os_version data, agent_version = cd_agent_version data,
      d_status = ''offline'', is_locked = False, last_seen = None,
      registered_at = now, last_lock_time = None, last_unlock_time = None,
      hardware_info = cd_hardware_info data, d_is_active = True\<rparr>"

text \<open>
  \<open>serializer.save()\<close> followed by \<open>perform_create\<close>. The values drawn by
  \<open>uuid.uuid4()\<close> and \<open>secrets.token_urlsafe(32)\<close> are parameters; both columns are
  declared \<open>unique=True\<close>, so a value already present is the database's
  \<open>IntegrityError\<close> (status 500). The serializer looks at no other device.
\<close>

definition DeviceListCreateView_POST ::
  "store \<Rightarrow> user \<Rightarrow> device_create_data \<Rightarrow> nat \<Rightarrow> string \<Rightarrow> timestamp
   \<Rightarrow> store \<times> (http_error + device)" where
  "DeviceListCreateView_POST s usr data uuid4 token now =
     (if uuid4 \<in> set (map device_id (devices s)) then (s, Inl Http500)
      else
        (let dev = new_device s data uuid4 now;
             s1 = s\<lparr>devices := devices s @ [dev], seq_devices := d_pk dev\<rparr>
         in if token \<in> set (map snd (device_tokens s1)) then (s1, Inl Http500)
            else
              (s1\<lparr>device_tokens := device_tokens s1 @ [(d_pk dev, token)],
                  events := events s1 @
                    [\<lparr>event_type = ''device_registered'', ev_device = Some (d_pk dev),
                      ev_user = Some (u_id usr), severity = ''info'',
                      message = ''Device '' @ d_name dev @ '' registered'',
                      ev_source = ''api''\<rparr>]\<rparr>,
               Inr dev)))"

text \<open>An administrator, and a registration that repeats the identity of \<open>ex_device\<close>.\<close>

definition ex_admin :: user where
  "ex_admin = \<lparr>u_id = 1, username = ''admin'', role = ''superadmin''\<rparr>"

definition ex_registration :: device_create_data where
  "ex_registration =
     \<lparr>cd_name = ''pc-1'', cd_hostname = ''pc-1.lan'', cd_ip_address = None,
      cd_mac_address = ''00:11:22:33:44:55'', cd_os_version = ''Windows 11'',
      cd_agent_version = ''1.0'', cd_hardware_info = []\<rparr>"

section \<open>Locking and unlocking: \<open>device_lock\<close>, \<open>device_unlock\<close>\<close>

text \<open>
  The Python values that reach the model methods: \<open>None\<close>, a string, a \<open>User\<close> instance,
  or any other JSON value (held by its \<open>str()\<close>).
\<close>

datatype pyval = PyNone | PyStr string | PyUser user | PyOther string

text \<open>\<open>User.ROLE_CHOICES\<close>, \<open>get_role_display\<close> and \<open>User.__str__\<close>.\<close>

definition ROLE_CHOICES :: "(string \<times> string) list" where
  "ROLE_CHOICES =
     [(''superadmin'', ''Super Administrator''), (''security'', ''Security Officer''),
      (''it_admin'', ''IT Administrator''), (''auditor'', ''Auditor''),
      (''unlock_user'', ''Unlock User'')]"

definition get_role_display :: "user \<Rightarrow> string" where
  "get_role_display u = (case map_of ROLE_CHOICES (role u) of None \<Rightarrow> role u | Some l \<Rightarrow> l)"

fun py_str :: "pyval \<Rightarrow> string" where
  "py_str PyNone = ''None''"
| "py_str (PyStr x) = x"
| "py_str (PyUser u) = username u @ '' ('' @ get_role_display u @ '')''"
| "py_str (PyOther x) = x"

text \<open>
  Assigning to a foreign key to \<open>User\<close>: \<open>None\<close> and a \<open>User\<close> instance are accepted, any
  other value raises \<open>ValueError\<close>.
\<close>

fun user_fk :: "pyval \<Rightarrow> py_exception + nat option" where
  "user_fk PyNone = Inr None"
| "user_fk (PyUser u) = Inr (Some (u_id u))"
| "user_fk v = Inl (ValueError ''must be a User instance'')"

text \<open>
  \<open>DeviceAction.objects.create(device=..., action_type=..., initiated_by=..., reason=...,
  status='pending')\<close>. The text field \<open>reason\<close> stores \<open>str()\<close> of a value that is no
  string and, not nullable, rejects \<open>None\<close>.
\<close>

definition DeviceAction_objects_create ::
  "store \<Rightarrow> nat \<Rightarrow> string \<Rightarrow> pyval \<Rightarrow> pyval \<Rightarrow> timestamp \<Rightarrow> py_exception + store" where
  "DeviceAction_objects_create s dev atype initiated rsn now =
     (case user_fk initiated of
        Inl e \<Rightarrow> Inl e
      | Inr u \<Rightarrow>
          (if rsn = PyNone then Inl IntegrityError
           else Inr (s\<lparr>device_actions := device_actions s @
                   [\<lparr>act_id = next_pk (seq_device_actions s) (map act_id (device_actions s)),
                     act_device = dev,
                     action_type = atype, initiated_by = u, act_status = ''pending'',
                     reason = py_str rsn, act_metadata = [], act_created_at = now,
                     completed_at = None\<rparr>],
                 seq_device_actions :=
                   next_pk (seq_device_actions s) (map act_id (device_actions s))\<rparr>)))"

text \<open>
  The fields of \<open>Event\<close>, and the names \<open>Event(...)\<close> accepts as keywords: the fields,
  \<open>pk\<close> and the column names of the two foreign keys.
\<close>

definition Event_fields :: "string list" where
  "Event_fields =
     [''id'', ''event_id'', ''event_type'', ''device'', ''user'', ''timestamp'', ''severity'',
      ''message'', ''metadata'', ''ip_address'', ''user_agent'', ''source'']"

definition Event_keywords :: "string list" where
  "Event_keywords = Event_fields @ [''pk'', ''device_id'', ''user_id'']"

text \<open>
  \<open>Event.objects.create(device=self, **kwargs)\<close>: the foreign key \<open>user\<close> is assigned
  first; a keyword that names no field raises \<open>TypeError\<close>; otherwise the row is stored,
  absent fields taking their defaults.
\<close>

definition Event_objects_create ::
  "store \<Rightarrow> nat \<Rightarrow> (string \<times> pyval) list \<Rightarrow> py_exception + store" where
  "Event_objects_create s dev kwargs =
     (case user_fk (dict_get (map_of kwargs ''user'') PyNone) of
        Inl e \<Rightarrow> Inl e
      | Inr u \<Rightarrow>
          (if list_ex (\<lambda>k. k \<notin> set Event_keywords) (map fst kwargs)
           then Inl (TypeError ''Event() got unexpected keyword arguments'')
           else Inr (s\<lparr>events := events s @
                   [\<lparr>event_type = py_str (dict_get (map_of kwargs ''event_type'') (PyStr '''')),
                     ev_device = Some dev, ev_user = u,
                     severity = py_str (dict_get (map_of kwargs ''severity'') (PyStr ''info'')),
                     message = py_str (dict_get (map_of kwargs ''message'') (PyStr '''')),
                     ev_source = py_str (dict_get (map_of kwargs ''source'') (PyStr ''agent''))\<rparr>]\<rparr>)))"

text \<open>
  \<open>Device.lock_screen(self, reason, admin_user)\<close>. The device row and the action row
  are written before the event is constructed; an exception leaves what was written.
\<close>

definition lock_screen ::
  "store \<Rightarrow> device \<Rightarrow> pyval \<Rightarrow> pyval \<Rightarrow> timestamp \<Rightarrow> store \<times> (py_exception + bool)" where
  "lock_screen s self rsn admin_user now =
     (let s1 = s\<lparr>devices :=
                   map (\<lambda>x. if d_pk x = d_pk self
                             then x\<lparr>is_locked := True, last_lock_time := Some now,
                                    d_status := ''locked''\<rparr>
                             else x) (devices s)\<rparr>
      in case DeviceAction_objects_create s1 (d_pk self) ''lock'' admin_user rsn now of
           Inl e \<Rightarrow> (s1, Inl e)
         | Inr s2 \<Rightarrow>
             (case Event_objects_create s2 (d_pk self)
                     [(''user'', admin_user), (''event_type'', PyStr ''lock''),
                      (''details'', PyStr (''Screen locked: '' @ py_str rsn)),
                      (''severity'', PyStr ''info'')] of
                Inl e \<Rightarrow> (s2, Inl e)
              | Inr s3 \<Rightarrow> (s3, Inr True)))"

text \<open>\<open>Device.unlock_screen(self, admin_user)\<close>; the action's \<open>reason\<close> takes its default.\<close>

definition unlock_screen ::
  "store \<Rightarrow> device \<Rightarrow> pyval \<Rightarrow> timestamp \<Rightarrow> store \<times> (py_exception + bool)" where
  "unlock_screen s self admin_user now =
     (let s1 = s\<lparr>devices :=
                   map (\<lambda>x. if d_pk x = d_pk self
                             then x\<lparr>is_locked := False, last_unlock_time := Some now,
                                    d_status := (if is_online self now then ''online''
                                                 else ''offline'')\<rparr>
                             else x) (devices s)\<rparr>
      in case DeviceAction_objects_create s1 (d_pk self) ''unlock'' admin_user (PyStr '''') now of
           Inl e \<Rightarrow> (s1, Inl e)
         | Inr s2 \<Rightarrow>
             (case Event_objects_create s2 (d_pk self)
                     [(''user'', admin_user), (''event_type'', PyStr ''unlock''),
                      (''details'', PyStr ''Screen unlocked by administrator''),
                      (''severity'', PyStr ''info'')] of
                Inl e \<Rightarrow> (s2, Inl e)
              | Inr s3 \<Rightarrow> (s3, Inr True)))"

text \<open>
  A call with positional arguments. \<open>lock_screen(self, reason="Manual lock",
  admin_user=None)\<close> binds the first argument to \<open>reason\<close> and the second to
  \<open>admin_user\<close>; \<open>unlock_screen(self, admin_user=None)\<close> takes one argument at most, and
  a call with more raises \<open>TypeError\<close> before the body runs.
\<close>

fun call_lock_screen ::
  "store \<Rightarrow> device \<Rightarrow> pyval list \<Rightarrow> timestamp \<Rightarrow> store \<times> (py_exception + bool)" where
  "call_lock_screen s self [] now = lock_screen s self (PyStr ''Manual lock'') PyNone now"
| "call_lock_screen s self [a] now = lock_screen s self a PyNone now"
| "call_lock_screen s self [a, b] now = lock_screen s self a b now"
| "call_lock_screen s self args now =
     (s, Inl (TypeError ''lock_screen() takes from 1 to 3 positional arguments''))"

fun call_unlock_screen ::
  "store \<Rightarrow> device \<Rightarrow> pyval list \<Rightarrow> timestamp \<Rightarrow> store \<times> (py_exception + bool)" where
  "call_unlock_screen s self [] now = unlock_screen s self PyNone now"
| "call_unlock_screen s self [a] now = unlock_screen s self a now"
| "call_unlock_screen s self args now =
     (s, Inl (TypeError ''unlock_screen() takes from 1 to 2 positional arguments''))"

text \<open>
  The request: the authenticated user and \<open>request.data.get('reason')\<close> (\<open>None\<close> when the
  key is absent).
\<close>

record api_request =
  req_user :: user
  req_reason :: "pyval option"

text \<open>\<open>result.id\<close> where \<open>result\<close> is the \<open>True\<close> the model methods return.\<close>

definition result_id :: "bool \<Rightarrow> py_exception + nat" where
  "result_id result = Inl (AttributeError ''bool object has no attribute id'')"

text \<open>The views \<open>device_lock\<close> and \<open>device_unlock\<close>; \<open>except Exception\<close> answers 500.\<close>

definition device_lock :: "store \<Rightarrow> api_request \<Rightarrow> nat \<Rightarrow> timestamp \<Rightarrow> store \<times> json_response" where
  "device_lock s rq did now =
     (case get_device s did of
        None \<Rightarrow> (s, \<lparr>success = False, http_status = 404\<rparr>)
      | Some device \<Rightarrow>
          if role (req_user rq) \<notin> set [''superadmin'', ''security'', ''it_admin'']
          then (s, \<lparr>success = False, http_status = 403\<rparr>)
          else
            (let rsn = dict_get (req_reason rq) (PyStr ''Manual lock via API'')
             in case call_lock_screen s device [PyUser (req_user rq), rsn] now of
                  (s', Inl e) \<Rightarrow> (s', \<lparr>success = False, http_status = 500\<rparr>)
                | (s', Inr result) \<Rightarrow>
                    (case result_id result of
                       Inl e \<Rightarrow> (s', \<lparr>success = False, http_status = 500\<rparr>)
                     | Inr i \<Rightarrow> (s', \<lparr>success = True, http_status = 200\<rparr>))))"

definition device_unlock :: "store \<Rightarrow> api_request \<Rightarrow> nat \<Rightarrow> timestamp \<Rightarrow> store \<times> json_response" where
  "device_unlock s rq did now =
     (case get_device s did of
        None \<Rightarrow> (s, \<lparr>success = False, http_status = 404\<rparr>)
      | Some device \<Rightarrow>
          if role (req_user rq) \<notin> set [''superadmin'', ''security'', ''it_admin'']
          then (s, \<lparr>success = False, http_status = 403\<rparr>)
          else
            (let rsn = dict_get (req_reason rq) (PyStr ''Manual unlock via API'')
             in case call_unlock_screen s device [PyUser (req_user rq), rsn] now of
                  (s', Inl e) \<Rightarrow> (s', \<lparr>success = False, http_status = 500\<rparr>)
                | (s', Inr result) \<Rightarrow>
                    (case result_id result of
                       Inl e \<Rightarrow> (s', \<lparr>success = False, http_status = 500\<rparr>)
                     | Inr i \<Rightarrow> (s', \<lparr>success = True, http_status = 200\<rparr>))))"

section \<open>Theorems\<close>

text \<open>
  C3. A device is online exactly when it has a last heartbeat and the time elapsed since
  it is strictly less than five minutes (300 000 000 microseconds); a device whose last
  heartbeat is exactly five minutes old is offline. The threshold is the constant
  \<open>five_minutes\<close>: \<open>is_online\<close> takes the device and the clock only, no policy and no
  heartbeat interval.
\<close>

theorem is_online_iff_recent:
  "(is_online d now \<longleftrightarrow> (\<exists>t. last_seen d = Some t \<and> now - t < 300000000))
   \<and> (last_seen d = Some t0 \<and> now - t0 = 300000000 \<longrightarrow> \<not> is_online d now)
   \<and> five_minutes = 300000000"
  by (auto simp: is_online_def five_minutes_def split: option.splits)

theorem is_online_iff_recent_witness:
  "last_seen ex_device = Some 0 \<and> \<not> is_online ex_device 300000000
   \<and> is_online ex_device 299999999"
  using is_online_iff_recent [of ex_device 300000000 0]
        is_online_iff_recent [of ex_device 299999999 0]
  by (simp add: ex_device_def)

subsection \<open>The loops of \<open>device_policy\<close> and deduplication\<close>

lemma append_all_eq: "append_all acc ps = acc @ ps"
  by (induction ps arbitrary: acc) auto

lemma append_new_eq:
  "append_new acc ps = acc @ dedup_by_identity (filter (\<lambda>q. not_in q acc) ps)"
proof (induction ps arbitrary: acc)
  case Nil
  then show ?case by simp
next
  case (Cons p ps)
  show ?case
  proof (cases "not_in p acc")
    case True
    have "filter (\<lambda>q. not_in q (acc @ [p])) ps
          = filter (\<lambda>q. p_id q \<noteq> p_id p) (filter (\<lambda>q. not_in q acc) ps)"
      by (auto simp: not_in_def intro: filter_cong)
    with True Cons show ?thesis by simp
  next
    case False
    with Cons show ?thesis by simp
  qed
qed

lemma dedup_append:
  "dedup_by_identity (xs @ ys)
   = dedup_by_identity xs @ dedup_by_identity (filter (\<lambda>q. not_in q xs) ys)"
proof (induction xs arbitrary: ys rule: dedup_by_identity.induct)
  case 1
  then show ?case by (simp add: not_in_def)
next
  case (2 p ps)
  have f: "filter (\<lambda>q. not_in q (filter (\<lambda>q. p_id q \<noteq> p_id p) ps)) (filter (\<lambda>q. p_id q \<noteq> p_id p) ys)
         = filter (\<lambda>q. not_in q (p # ps)) ys"
    by (auto simp: not_in_def intro!: filter_cong)
  show ?case using 2[of "filter (\<lambda>q. p_id q \<noteq> p_id p) ys"] f by simp
qed

lemma dedup_distinct_id: "distinct (map p_id xs) \<Longrightarrow> dedup_by_identity xs = xs"
proof (induction xs)
  case Nil
  then show ?case by simp
next
  case (Cons p ps)
  then have "filter (\<lambda>q. p_id q \<noteq> p_id p) ps = ps"
    by (auto simp: filter_id_conv image_iff)
  with Cons show ?case by simp
qed

lemma set_dedup: "set (dedup_by_identity xs) \<subseteq> set xs"
  by (induction xs rule: dedup_by_identity.induct) auto

lemma distinct_dedup: "distinct (map p_id (dedup_by_identity xs))"
proof (induction xs rule: dedup_by_identity.induct)
  case 1
  then show ?case by simp
next
  case (2 p ps)
  have "p_id p \<notin> p_id ` set (dedup_by_identity (filter (\<lambda>q. p_id q \<noteq> p_id p) ps))"
    using set_dedup[of "filter (\<lambda>q. p_id q \<noteq> p_id p) ps"] by auto
  with 2 show ?case by simp
qed


lemma policy_of_id: "policy_of s a = Some p \<Longrightarrow> p_id p = a_policy a"
  unfolding policy_of_def by (auto simp: find_Some_iff)

lemma assigned_policies_ids:
  "\<forall>a \<in> set as. policy_of s a \<noteq> None \<Longrightarrow> map p_id (assigned_policies s as) = map a_policy as"
proof (induction as)
  case Nil
  then show ?case by (simp add: assigned_policies_def map_filter_simps)
next
  case (Cons a as)
  then obtain p where p: "policy_of s a = Some p" by auto
  with Cons show ?case
    by (simp add: assigned_policies_def map_filter_simps policy_of_id)
qed

lemma distinct_map_order_by:
  "distinct (map f (order_by_desc k xs)) = distinct (map f xs)"
proof -
  have "mset (map f (order_by_desc k xs)) = mset (map f xs)"
    by (simp add: order_by_desc_def)
  then show ?thesis by (rule mset_eq_imp_distinct_iff)
qed

lemma distinct_device_tier:
  assumes "unique_together (policy_assignments s)"
  shows "distinct (map p_id (device_tier s dpk))"
proof -
  define P where "P = (\<lambda>a. a_device a = Some dpk \<and> a_is_active a \<and> policy__is_active s a)"
  define Q where "Q = (\<lambda>a::policy_assignment. a_device a \<noteq> None)"
  define f where "f = (\<lambda>a::policy_assignment. (a_policy a, a_device a))"
  define rows where "rows = filter P (policy_assignments s)"
  have ex: "\<forall>a \<in> set (device_policies s dpk). policy_of s a \<noteq> None"
    by (auto simp: device_policies_def order_by_desc_def policy__is_active_def split: option.splits)
  have d1: "distinct (map f (filter Q (policy_assignments s)))"
    using assms by (simp add: unique_together_def f_def Q_def)
  have "distinct (map f (filter P (filter Q (policy_assignments s))))"
    using d1 by (rule distinct_map_filter)
  moreover have "filter P (filter Q (policy_assignments s)) = rows"
    unfolding rows_def filter_filter by (rule filter_cong) (auto simp: P_def Q_def)
  ultimately have d2: "distinct (map f rows)" by simp
  have dev: "\<forall>a \<in> set rows. a_device a = Some dpk"
    by (simp add: rows_def P_def)
  have "inj_on a_policy (set rows)"
  proof (rule inj_onI)
    fix a b assume a: "a \<in> set rows" and b: "b \<in> set rows" and e: "a_policy a = a_policy b"
    have "f a = f b" using a b e dev by (simp add: f_def)
    moreover have "inj_on f (set rows)" using d2 by (simp add: distinct_map)
    ultimately show "a = b" using a b by (simp add: inj_on_def)
  qed
  moreover have "distinct rows" using d2 by (simp add: distinct_map)
  ultimately have "distinct (map a_policy rows)"
    by (simp add: distinct_map)
  then have "distinct (map a_policy (device_policies s dpk))"
    by (simp add: device_policies_def distinct_map_order_by rows_def P_def)
  with ex show ?thesis
    by (simp add: device_tier_def assigned_policies_ids)
qed

lemma ids_dedup: "p_id ` set (dedup_by_identity xs) = p_id ` set xs"
proof (induction xs rule: dedup_by_identity.induct)
  case 1
  then show ?case by simp
next
  case (2 p ps)
  have "p_id ` set (filter (\<lambda>q. p_id q \<noteq> p_id p) ps) \<union> {p_id p} = p_id ` set ps \<union> {p_id p}"
    by auto
  with 2 show ?case by auto
qed

lemma all_policies_eq:
  "all_policies s k = device_tier s k
     @ dedup_by_identity (filter (\<lambda>q. not_in q (device_tier s k)) (group_tier s k))
     @ dedup_by_identity (filter (\<lambda>q. not_in q (device_tier s k) \<and> not_in q (group_tier s k)) (global_tier s))"
proof -
  define D where "D = device_tier s k"
  define G where "G = dedup_by_identity (filter (\<lambda>q. not_in q D) (group_tier s k))"
  have "p_id ` set G = p_id ` set (filter (\<lambda>q. not_in q D) (group_tier s k))"
    unfolding G_def by (rule ids_dedup)
  then have G: "p_id ` set G = p_id ` set (group_tier s k) - p_id ` set D"
    by (auto simp: not_in_def)
  have "\<And>q. not_in q (D @ G) = (not_in q D \<and> not_in q (group_tier s k))"
    using G by (auto simp: not_in_def)
  then have f: "filter (\<lambda>q. not_in q (D @ G)) (global_tier s)
        = filter (\<lambda>q. not_in q D \<and> not_in q (group_tier s k)) (global_tier s)"
    by simp
  have "all_policies s k = (D @ G) @ dedup_by_identity (filter (\<lambda>q. not_in q (D @ G)) (global_tier s))"
    by (simp add: all_policies_def append_all_eq append_new_eq D_def G_def device_tier_def
        group_tier_def global_tier_def)
  with f show ?thesis by (simp add: D_def G_def)
qed

lemma all_policies_dedup:
  assumes "distinct (map p_id (device_tier s k))"
  shows "all_policies s k = dedup_by_identity (device_tier s k @ group_tier s k @ global_tier s)"
proof -
  define D where "D = device_tier s k"
  define G where "G = group_tier s k"
  define L where "L = global_tier s"
  have 1: "dedup_by_identity (D @ G @ L) = D @ dedup_by_identity (filter (\<lambda>q. not_in q D) G @ filter (\<lambda>q. not_in q D) L)"
    using assms by (simp add: dedup_append dedup_distinct_id D_def)
  have "\<And>q. not_in q D \<Longrightarrow> not_in q (filter (\<lambda>q. not_in q D) G) = not_in q G"
    by (auto simp: not_in_def)
  then have 2: "filter (\<lambda>x. not_in x D \<and> not_in x (filter (\<lambda>q. not_in q D) G)) L
           = filter (\<lambda>q. not_in q D \<and> not_in q G) L"
    by (intro filter_cong) auto
  show ?thesis
    unfolding all_policies_eq D_def[symmetric] G_def[symmetric] L_def[symmetric] 1
    by (simp add: dedup_append 2)
qed

subsection \<open>What a tier contains\<close>

lemma set_assigned_policies:
  "set (assigned_policies s as) = {p. \<exists>a \<in> set as. policy_of s a = Some p}"
  unfolding assigned_policies_def
  by (induction as) (auto split: option.splits)

lemma device_tier_members:
  "p \<in> set (device_tier s k) \<longleftrightarrow>
     p_is_active p
     \<and> (\<exists>a \<in> set (policy_assignments s).
           a_device a = Some k \<and> a_is_active a \<and> policy_of s a = Some p)"
  by (auto simp: device_tier_def set_assigned_policies device_policies_def order_by_desc_def
      policy__is_active_def)

lemma set_device_group__devices:
  "a \<in> set (device_group__devices s k) \<longleftrightarrow>
     a \<in> set (policy_assignments s)
     \<and> (\<exists>g. a_device_group a = Some g \<and> (g, k) \<in> set (device_groups_devices s)
              \<and> g \<in> g_id ` set (device_groups s))"
  by (auto simp: device_group__devices_def list_ex_iff split: if_splits)

lemma group_tier_members:
  "p \<in> set (group_tier s k) \<longleftrightarrow>
     p_is_active p
     \<and> (\<exists>a \<in> set (policy_assignments s).
           a_is_active a \<and> policy_of s a = Some p
           \<and> (\<exists>g. a_device_group a = Some g \<and> (g, k) \<in> set (device_groups_devices s)
                    \<and> g \<in> g_id ` set (device_groups s)))"
  by (auto simp: group_tier_def set_assigned_policies group_policies_def order_by_desc_def
      policy__is_active_def set_device_group__devices)

lemma global_tier_members:
  "p \<in> set (global_tier s) \<longleftrightarrow> p \<in> set (policies s) \<and> p_scope p = ''global'' \<and> p_is_active p"
  by (auto simp: global_tier_def global_policies_def order_by_desc_def)

text \<open>
  C1, as stated, fails: an active assignment that targets the device directly is no
  candidate when its policy is inactive. In \<open>inactive_store\<close> the only assignment is
  active and targets device 1, but its policy 30 is inactive; the applied-policies list
  is the global policy 31 alone, and policy 31 is the effective policy.
\<close>

theorem device_policy_inactive_policy_counterexample:
  "map a_policy (policy_assignments inactive_store) = [30]
   \<and> map a_device (policy_assignments inactive_store) = [Some 1]
   \<and> map a_is_active (policy_assignments inactive_store) = [True]
   \<and> device_policy inactive_store 101 =
       Inr \<lparr>r_device_id = 101, effective_policy = Some (ex_policy 31 ''global'' 1 200),
            applied_policies = [ex_policy 31 ''global'' 1 200], last_updated = 0\<rparr>"
proof -
  have p: "policy_of inactive_store = (\<lambda>a. find (\<lambda>p. p_id p = a_policy a)
      [(ex_policy 30 ''device'' 9 100)\<lparr>p_is_active := False\<rparr>, ex_policy 31 ''global'' 1 200])"
    by (rule ext) (simp add: policy_of_def inactive_store_def)
  have d: "assigned_policies inactive_store (device_policies inactive_store 1) = []"
    by (simp add: device_policies_def assigned_policies_def order_by_desc_def
        policy__is_active_def policy__priority_def p ex_policy_def)
       (simp add: inactive_store_def ex_policy_def)
  have g: "assigned_policies inactive_store (group_policies inactive_store 1) = []"
    by (simp add: group_policies_def assigned_policies_def order_by_desc_def
        device_group__devices_def inactive_store_def)
  have l: "global_policies inactive_store = [ex_policy 31 ''global'' 1 200]"
    by (simp add: global_policies_def order_by_desc_def inactive_store_def ex_policy_def)
  have a: "all_policies inactive_store 1 = [ex_policy 31 ''global'' 1 200]"
    unfolding all_policies_def d g l by (simp add: not_in_def)
  have gd: "get_device inactive_store 101 = Some ex_device"
    by (simp add: get_device_def inactive_store_def ex_device_def)
  have k: "d_pk ex_device = 1" by (simp add: ex_device_def)
  have a': "all_policies inactive_store (d_pk ex_device) = [ex_policy 31 ''global'' 1 200]"
    unfolding k by (rule a)
  have r: "registered_at ex_device = 0" by (simp add: ex_device_def)
  have "device_policy inactive_store 101 =
       Inr \<lparr>r_device_id = 101, effective_policy = Some (ex_policy 31 ''global'' 1 200),
            applied_policies = [ex_policy 31 ''global'' 1 200], last_updated = 0\<rparr>"
    by (simp add: device_policy_def gd a' r)
  then show ?thesis by (simp add: inactive_store_def)
qed

text \<open>
  C1, amended. For every registered device the policy resolution query answers (it is
  not an error) with an applied-policies list that is the concatenation of the device
  tier, the group tier and the global tier, deduplicated by policy identity: the
  device-tier policies come first, then the group-tier policies not already listed,
  then the global-tier policies not already listed. A policy is in the device tier
  exactly when it is active and an active assignment that targets the device directly
  points to it; it is in the group tier exactly when it is active and an active
  assignment that targets a group containing the device points to it; it is in the
  global tier exactly when it is an active policy of global scope. So an active
  assignment whose policy is inactive is no candidate, and every applied policy is
  active. No policy identity occurs twice, the effective policy is the head of the list,
  and when no tier has a candidate the effective policy is null and the list is empty.
  The store satisfies the uniqueness constraint that \<open>PolicyAssignment.Meta\<close> declares.
\<close>

theorem device_policy_tier_order:
  assumes "unique_together (policy_assignments s)" and "get_device s did = Some d"
  shows "\<exists>r. device_policy s did = Inr r
     \<and> applied_policies r
         = dedup_by_identity (device_tier s (d_pk d) @ group_tier s (d_pk d) @ global_tier s)
     \<and> applied_policies r
         = device_tier s (d_pk d)
           @ dedup_by_identity
               (filter (\<lambda>q. not_in q (device_tier s (d_pk d))) (group_tier s (d_pk d)))
           @ dedup_by_identity
               (filter (\<lambda>q. not_in q (device_tier s (d_pk d)) \<and> not_in q (group_tier s (d_pk d)))
                  (global_tier s))
     \<and> (\<forall>p. p \<in> set (device_tier s (d_pk d)) \<longleftrightarrow>
            p_is_active p
            \<and> (\<exists>a \<in> set (policy_assignments s).
                  a_device a = Some (d_pk d) \<and> a_is_active a \<and> policy_of s a = Some p))
     \<and> (\<forall>p. p \<in> set (group_tier s (d_pk d)) \<longleftrightarrow>
            p_is_active p
            \<and> (\<exists>a \<in> set (policy_assignments s).
                  a_is_active a \<and> policy_of s a = Some p
                  \<and> (\<exists>g. a_device_group a = Some g
                           \<and> (g, d_pk d) \<in> set (device_groups_devices s)
                           \<and> g \<in> g_id ` set (device_groups s))))
     \<and> (\<forall>p. p \<in> set (global_tier s) \<longleftrightarrow>
            p \<in> set (policies s) \<and> p_scope p = ''global'' \<and> p_is_active p)
     \<and> (\<forall>p \<in> set (applied_policies r). p_is_active p)
     \<and> distinct (map p_id (applied_policies r))
     \<and> effective_policy r = (case applied_policies r of [] \<Rightarrow> None | p # ps \<Rightarrow> Some p)
     \<and> (device_tier s (d_pk d) @ group_tier s (d_pk d) @ global_tier s = []
          \<longrightarrow> effective_policy r = None \<and> applied_policies r = [])"
proof -
  define k where "k = d_pk d"
  define r where "r = \<lparr>r_device_id = did,
      effective_policy = (case all_policies s k of [] \<Rightarrow> None | p # ps \<Rightarrow> Some p),
      applied_policies = all_policies s k, last_updated = registered_at d\<rparr>"
  have ret: "device_policy s did = Inr r"
    using assms(2) by (simp add: device_policy_def r_def k_def split: list.splits)
  have dd: "distinct (map p_id (device_tier s k))"
    using assms(1) by (rule distinct_device_tier)
  have a1: "applied_policies r = dedup_by_identity (device_tier s k @ group_tier s k @ global_tier s)"
    using dd by (simp add: r_def all_policies_dedup)
  have a2: "applied_policies r = device_tier s k
           @ dedup_by_identity (filter (\<lambda>q. not_in q (device_tier s k)) (group_tier s k))
           @ dedup_by_identity
               (filter (\<lambda>q. not_in q (device_tier s k) \<and> not_in q (group_tier s k)) (global_tier s))"
    by (simp add: r_def all_policies_eq)
  have m1: "\<forall>p. p \<in> set (device_tier s k) \<longleftrightarrow>
            p_is_active p
            \<and> (\<exists>a \<in> set (policy_assignments s).
                  a_device a = Some k \<and> a_is_active a \<and> policy_of s a = Some p)"
    by (simp only: device_tier_members) simp
  have m2: "\<forall>p. p \<in> set (group_tier s k) \<longleftrightarrow>
            p_is_active p
            \<and> (\<exists>a \<in> set (policy_assignments s).
                  a_is_active a \<and> policy_of s a = Some p
                  \<and> (\<exists>g. a_device_group a = Some g
                           \<and> (g, k) \<in> set (device_groups_devices s)
                           \<and> g \<in> g_id ` set (device_groups s)))"
    by (simp only: group_tier_members) simp
  have m3: "\<forall>p. p \<in> set (global_tier s) \<longleftrightarrow>
            p \<in> set (policies s) \<and> p_scope p = ''global'' \<and> p_is_active p"
    by (simp only: global_tier_members) simp
  have "set (applied_policies r) \<subseteq> set (device_tier s k @ group_tier s k @ global_tier s)"
    unfolding a1 by (rule set_dedup)
  then have m4: "\<forall>p \<in> set (applied_policies r). p_is_active p"
    using m1 m2 m3 by auto
  have a3: "distinct (map p_id (applied_policies r))"
    unfolding a1 by (rule distinct_dedup)
  have a4: "effective_policy r = (case applied_policies r of [] \<Rightarrow> None | p # ps \<Rightarrow> Some p)"
    by (simp add: r_def)
  have a5: "device_tier s k @ group_tier s k @ global_tier s = []
          \<longrightarrow> effective_policy r = None \<and> applied_policies r = []"
    using a1 a4 by auto
  show ?thesis
    unfolding k_def[symmetric]
    by (rule exI[of _ r]) (intro conjI ret a1 a2 m1 m2 m3 m4 a3 a4 a5)
qed

theorem device_policy_tier_order_witness:
  "unique_together (policy_assignments ex_store) \<and> get_device ex_store 101 = Some ex_device
   \<and> (\<exists>r. device_policy ex_store 101 = Inr r
        \<and> map p_id (applied_policies r) = [12, 11, 10]
        \<and> map_option p_id (effective_policy r) = Some 12)"
proof -
  have h1: "unique_together (policy_assignments ex_store)"
    by (simp add: unique_together_def ex_store_def)
  have h2: "get_device ex_store 101 = Some ex_device"
    by (simp add: get_device_def ex_store_def ex_device_def)
  have k: "d_pk ex_device = 1" by (simp add: ex_device_def)
  have p: "policy_of ex_store = (\<lambda>a. find (\<lambda>p. p_id p = a_policy a)
      [ex_policy 10 ''global'' 1 100, ex_policy 11 ''group'' 5 200, ex_policy 12 ''device'' 0 300])"
    by (rule ext) (simp add: policy_of_def ex_store_def)
  have d: "device_tier ex_store 1 = [ex_policy 12 ''device'' 0 300]"
    by (simp add: device_tier_def device_policies_def assigned_policies_def order_by_desc_def
        policy__is_active_def policy__priority_def p ex_policy_def)
       (simp add: ex_store_def ex_policy_def)
  have g: "group_tier ex_store 1 = [ex_policy 11 ''group'' 5 200]"
    by (simp add: group_tier_def group_policies_def assigned_policies_def order_by_desc_def
        policy__is_active_def policy__priority_def device_group__devices_def p ex_policy_def)
       (simp add: ex_store_def ex_policy_def policy_of_def)
  have l: "global_tier ex_store = [ex_policy 10 ''global'' 1 100]"
    by (simp add: global_tier_def global_policies_def order_by_desc_def ex_store_def ex_policy_def)
  from device_policy_tier_order [OF h1 h2] obtain r where
    r: "device_policy ex_store 101 = Inr r"
    and a: "applied_policies r = dedup_by_identity
        (device_tier ex_store (d_pk ex_device) @ group_tier ex_store (d_pk ex_device) @ global_tier ex_store)"
    and e: "effective_policy r = (case applied_policies r of [] \<Rightarrow> None | p # ps \<Rightarrow> Some p)"
    by blast
  have a': "applied_policies r = [ex_policy 12 ''device'' 0 300, ex_policy 11 ''group'' 5 200,
      ex_policy 10 ''global'' 1 100]"
    unfolding a k d g l by (simp add: ex_policy_def)
  have "map p_id (applied_policies r) = [12, 11, 10]"
    unfolding a' by (simp add: ex_policy_def)
  moreover have "map_option p_id (effective_policy r) = Some 12"
    unfolding e a' by (simp add: ex_policy_def)
  ultimately show ?thesis using h1 h2 r by (intro conjI exI[of _ r])
qed

subsection \<open>Order within a tier\<close>

lemma sorted_order_by_desc: "sorted (map (\<lambda>r. - key r) (order_by_desc key rows))"
  by (simp add: order_by_desc_def)

lemma device_policies_priority_descending:
  "sorted (map (\<lambda>a. - policy__priority s a) (device_policies s dpk))"
  unfolding device_policies_def by (rule sorted_order_by_desc)

lemma group_policies_priority_descending:
  "sorted (map (\<lambda>a. - policy__priority s a) (group_policies s dpk))"
  unfolding group_policies_def by (rule sorted_order_by_desc)

lemma global_policies_priority_descending:
  "sorted (map (\<lambda>p. - priority p) (global_policies s))"
  unfolding global_policies_def by (rule sorted_order_by_desc)

text \<open>
  C2. The querysets of \<open>device_policy\<close> are ordered by priority only
  (\<open>order_by('-policy__priority')\<close>, \<open>order_by('-priority')\<close>); the creation time is no
  sort key. For the two device-tier policies of \<open>tie_store\<close>, which have the same
  priority 5, the resolver lists the older policy 20 (created at 100) before the newer
  policy 21 (created at 200) and reports the older one as effective.
\<close>

theorem device_policy_equal_priority_older_wins:
  "device_policy tie_store 101 =
     Inr \<lparr>r_device_id = 101, effective_policy = Some (ex_policy 20 ''device'' 5 100),
          applied_policies = [ex_policy 20 ''device'' 5 100, ex_policy 21 ''device'' 5 200],
          last_updated = 0\<rparr>
   \<and> priority (ex_policy 20 ''device'' 5 100) = priority (ex_policy 21 ''device'' 5 200)
   \<and> p_created_at (ex_policy 20 ''device'' 5 100) < p_created_at (ex_policy 21 ''device'' 5 200)"
proof -
  have p: "policy_of tie_store = (\<lambda>a. find (\<lambda>p. p_id p = a_policy a)
      [ex_policy 20 ''device'' 5 100, ex_policy 21 ''device'' 5 200])"
    by (rule ext) (simp add: policy_of_def tie_store_def)
  have d: "assigned_policies tie_store (device_policies tie_store 1)
           = [ex_policy 20 ''device'' 5 100, ex_policy 21 ''device'' 5 200]"
    by (simp add: device_policies_def assigned_policies_def order_by_desc_def
        policy__is_active_def policy__priority_def p ex_policy_def)
       (simp add: tie_store_def ex_policy_def)
  have g: "assigned_policies tie_store (group_policies tie_store 1) = []"
    by (simp add: group_policies_def assigned_policies_def order_by_desc_def
        device_group__devices_def tie_store_def)
  have l: "global_policies tie_store = []"
    by (simp add: global_policies_def order_by_desc_def tie_store_def ex_policy_def)
  have a: "all_policies tie_store 1 = [ex_policy 20 ''device'' 5 100, ex_policy 21 ''device'' 5 200]"
    unfolding all_policies_def d g l by simp
  have gd: "get_device tie_store 101 = Some ex_device"
    by (simp add: get_device_def tie_store_def ex_device_def)
  have k: "d_pk ex_device = 1" by (simp add: ex_device_def)
  have a': "all_policies tie_store (d_pk ex_device)
            = [ex_policy 20 ''device'' 5 100, ex_policy 21 ''device'' 5 200]"
    unfolding k by (rule a)
  have r: "registered_at ex_device = 0" by (simp add: ex_device_def)
  have "device_policy tie_store 101 =
     Inr \<lparr>r_device_id = 101, effective_policy = Some (ex_policy 20 ''device'' 5 100),
          applied_policies = [ex_policy 20 ''device'' 5 100, ex_policy 21 ''device'' 5 200],
          last_updated = 0\<rparr>"
    by (simp add: device_policy_def gd a' r)
  then show ?thesis by (simp add: ex_policy_def)
qed

subsection \<open>Deleting a policy\<close>

text \<open>
  C4, as stated, fails: policy 12 of \<open>ex_store\<close> is referenced by the active assignment 2,
  yet deleting it succeeds with status 200, and the policy and the assignment are both
  gone afterwards.
\<close>

theorem policy_delete_referenced_counterexample:
  "map a_policy (policy_assignments ex_store) = [11, 12]
   \<and> map a_is_active (policy_assignments ex_store) = [True, True]
   \<and> snd (api_policy_detail_DELETE ex_store 12) = \<lparr>success = True, http_status = 200\<rparr>
   \<and> map p_id (policies (fst (api_policy_detail_DELETE ex_store 12))) = [10, 11]
   \<and> map a_policy (policy_assignments (fst (api_policy_detail_DELETE ex_store 12))) = [11]"
  by (simp add: api_policy_detail_DELETE_def policy_delete_def ex_store_def ex_policy_def)

text \<open>
  C4, amended. Deleting an existing policy always succeeds (status 200), whether or not
  assignments reference it: the policy is removed together with every assignment that
  references it, active or not (cascade), and every other policy, every other
  assignment and the devices, groups and memberships are unchanged. Deleting an unknown
  policy is answered with 404 and changes nothing. There is no
  \<open>ReferencedByAssignments\<close> error.
\<close>

theorem policy_delete_cascades:
  "(find (\<lambda>p. p_id p = pid) (policies s) = None \<longrightarrow>
      api_policy_detail_DELETE s pid = (s, \<lparr>success = False, http_status = 404\<rparr>))
   \<and> (find (\<lambda>p. p_id p = pid) (policies s) = Some p \<longrightarrow>
      snd (api_policy_detail_DELETE s pid) = \<lparr>success = True, http_status = 200\<rparr>
      \<and> policies (fst (api_policy_detail_DELETE s pid))
          = filter (\<lambda>q. p_id q \<noteq> pid) (policies s)
      \<and> policy_assignments (fst (api_policy_detail_DELETE s pid))
          = filter (\<lambda>a. a_policy a \<noteq> pid) (policy_assignments s)
      \<and> devices (fst (api_policy_detail_DELETE s pid)) = devices s
      \<and> device_groups (fst (api_policy_detail_DELETE s pid)) = device_groups s
      \<and> device_groups_devices (fst (api_policy_detail_DELETE s pid)) = device_groups_devices s)"
proof (intro conjI impI)
  assume "find (\<lambda>p. p_id p = pid) (policies s) = None"
  then show "api_policy_detail_DELETE s pid = (s, \<lparr>success = False, http_status = 404\<rparr>)"
    by (simp add: api_policy_detail_DELETE_def)
next
  assume f: "find (\<lambda>p. p_id p = pid) (policies s) = Some p"
  then have i: "p_id p = pid" by (auto simp: find_Some_iff)
  show "snd (api_policy_detail_DELETE s pid) = \<lparr>success = True, http_status = 200\<rparr>"
    using f by (simp add: api_policy_detail_DELETE_def)
  show "policies (fst (api_policy_detail_DELETE s pid)) = filter (\<lambda>q. p_id q \<noteq> pid) (policies s)"
    using f i by (simp add: api_policy_detail_DELETE_def policy_delete_def)
  show "policy_assignments (fst (api_policy_detail_DELETE s pid))
          = filter (\<lambda>a. a_policy a \<noteq> pid) (policy_assignments s)"
    using f i by (simp add: api_policy_detail_DELETE_def policy_delete_def)
  show "devices (fst (api_policy_detail_DELETE s pid)) = devices s"
    using f by (simp add: api_policy_detail_DELETE_def policy_delete_def)
  show "device_groups (fst (api_policy_detail_DELETE s pid)) = device_groups s"
    using f by (simp add: api_policy_detail_DELETE_def policy_delete_def)
  show "device_groups_devices (fst (api_policy_detail_DELETE s pid)) = device_groups_devices s"
    using f by (simp add: api_policy_detail_DELETE_def policy_delete_def)
qed

theorem policy_delete_cascades_witness:
  "find (\<lambda>p. p_id p = 11) (policies ex_store) = Some (ex_policy 11 ''group'' 5 200)
   \<and> snd (api_policy_detail_DELETE ex_store 11) = \<lparr>success = True, http_status = 200\<rparr>
   \<and> map a_id (policy_assignments (fst (api_policy_detail_DELETE ex_store 11))) = [2]
   \<and> find (\<lambda>p. p_id p = 99) (policies ex_store) = None
   \<and> api_policy_detail_DELETE ex_store 99 = (ex_store, \<lparr>success = False, http_status = 404\<rparr>)"
proof -
  have h: "find (\<lambda>p. p_id p = 11) (policies ex_store) = Some (ex_policy 11 ''group'' 5 200)"
    by (simp add: ex_store_def ex_policy_def)
  have n: "find (\<lambda>p. p_id p = 99) (policies ex_store) = None"
    by (simp add: ex_store_def ex_policy_def)
  have m: "map a_id (filter (\<lambda>a. a_policy a \<noteq> 11) (policy_assignments ex_store)) = [2]"
    by (simp add: ex_store_def)
  from policy_delete_cascades [of 11 ex_store "ex_policy 11 ''group'' 5 200"] h m
  have 1: "snd (api_policy_detail_DELETE ex_store 11) = \<lparr>success = True, http_status = 200\<rparr>
     \<and> map a_id (policy_assignments (fst (api_policy_detail_DELETE ex_store 11))) = [2]"
    by simp
  from policy_delete_cascades [of 99 ex_store "ex_policy 11 ''group'' 5 200"] n
  have 2: "api_policy_detail_DELETE ex_store 99
           = (ex_store, \<lparr>success = False, http_status = 404\<rparr>)"
    by simp
  from h n 1 2 show ?thesis by simp
qed

subsection \<open>Policy assignments\<close>

text \<open>
  The create endpoint: a body with both targets or with neither is answered with 400 and
  nothing is stored; a row that is stored has exactly one target; the uniqueness
  constraint is preserved.
\<close>

lemma validate_exactly_one:
  "validate attrs = Inr attrs' \<longleftrightarrow>
     attrs' = attrs \<and> (at_device attrs = None) \<noteq> (at_device_group attrs = None)"
  by (auto simp: validate_def)

lemma create_rejects_both_or_neither:
  assumes "(at_device attrs = None) = (at_device_group attrs = None)"
  shows "PolicyAssignmentListCreateView_POST s attrs = (s, Inl Http400)"
proof -
  have "\<exists>e. validate attrs = Inl e" using assms by (auto simp: validate_def)
  then show ?thesis by (auto simp: PolicyAssignmentListCreateView_POST_def)
qed

lemma create_error_stores_nothing:
  "snd (PolicyAssignmentListCreateView_POST s attrs) = Inl e \<Longrightarrow>
   fst (PolicyAssignmentListCreateView_POST s attrs) = s"
  by (auto simp: PolicyAssignmentListCreateView_POST_def Let_def split: if_splits sum.splits)

lemma create_stores_exactly_one_target:
  assumes "PolicyAssignmentListCreateView_POST s attrs = (s', Inr row)"
  shows "policy_assignments s' = policy_assignments s @ [row]
         \<and> (a_device row = None) \<noteq> (a_device_group row = None)
         \<and> \<not> violates_unique_together (policy_assignments s)
               (a_policy row) (a_device row) (a_device_group row)"
  using assms
  by (auto simp: PolicyAssignmentListCreateView_POST_def Let_def validate_def
      split: if_splits sum.splits)

lemma unique_together_append:
  assumes "unique_together rows"
      and "\<not> violates_unique_together rows (a_policy row) (a_device row) (a_device_group row)"
  shows "unique_together (rows @ [row])"
proof -
  have d: "a_device row \<noteq> None \<Longrightarrow>
        (a_policy row, a_device row) \<notin> (\<lambda>a. (a_policy a, a_device a)) ` set rows"
    using assms(2) by (auto simp: violates_unique_together_def list_ex_iff)
  have g: "a_device_group row \<noteq> None \<Longrightarrow>
        (a_policy row, a_device_group row) \<notin> (\<lambda>a. (a_policy a, a_device_group a)) ` set rows"
    using assms(2) by (auto simp: violates_unique_together_def list_ex_iff)
  show ?thesis
    using assms(1) d g by (auto simp: unique_together_def)
qed

lemma create_preserves_unique_together:
  assumes "unique_together (policy_assignments s)"
  shows "unique_together (policy_assignments (fst (PolicyAssignmentListCreateView_POST s attrs)))"
proof (cases "snd (PolicyAssignmentListCreateView_POST s attrs)")
  case (Inl e)
  then show ?thesis using assms by (simp add: create_error_stores_nothing)
next
  case (Inr row)
  then have "PolicyAssignmentListCreateView_POST s attrs
             = (fst (PolicyAssignmentListCreateView_POST s attrs), Inr row)"
    by (metis prod.collapse)
  from create_stores_exactly_one_target [OF this] assms show ?thesis
    by (simp add: unique_together_append)
qed

text \<open>
  C5. The update endpoint does not repeat the check of the create endpoint: a PATCH with
  \<open>device_group = 1\<close> on assignment 2 of \<open>ex_store\<close>, which targets device 1, is
  accepted, and the stored row then has both a device and a device group.
\<close>

theorem assignment_update_stores_both_targets:
  "snd (PolicyAssignmentDetailView_PATCH ex_store 2
          \<lparr>up_device_group = Some (Some 1), up_is_active = None\<rparr>)
     = Inr \<lparr>a_id = 2, a_policy = 12, a_device = Some 1, a_device_group = Some 1,
            a_is_active = True\<rparr>
   \<and> policy_assignments (fst (PolicyAssignmentDetailView_PATCH ex_store 2
          \<lparr>up_device_group = Some (Some 1), up_is_active = None\<rparr>))
     = [\<lparr>a_id = 1, a_policy = 11, a_device = None, a_device_group = Some 1, a_is_active = True\<rparr>,
        \<lparr>a_id = 2, a_policy = 12, a_device = Some 1, a_device_group = Some 1, a_is_active = True\<rparr>]"
  by (simp add: PolicyAssignmentDetailView_PATCH_def violates_unique_together_def ex_store_def
      Let_def)

subsection \<open>Numeric bounds of a policy\<close>

text \<open>
  C6. The dashboard endpoints store out-of-range settings. A POST whose body has idle
  timeout 5, max unlock attempts 0, lockout duration 2000 and heartbeat interval 10 is
  answered with success, and the new policy (primary key 13) is stored with exactly
  these values, which the validators of the model fields reject; a PUT of the same body
  on policy 10 overwrites its settings in the same way.
\<close>

theorem dashboard_policy_stores_out_of_range:
  "snd (api_policies_list_POST ex_store out_of_range_data 400)
     = \<lparr>success = True, http_status = 200\<rparr>
   \<and> policies (fst (api_policies_list_POST ex_store out_of_range_data 400))
     = policies ex_store
       @ [\<lparr>p_id = 13, p_name = ''kiosk'', p_scope = ''global'', idle_timeout_seconds = 5,
           max_unlock_attempts = 0, lockout_duration_minutes = 2000,
           heartbeat_interval_seconds = 10, p_is_active = True, priority = 0,
           p_created_at = 400\<rparr>]
   \<and> \<not> field_validators
         \<lparr>p_id = 13, p_name = ''kiosk'', p_scope = ''global'', idle_timeout_seconds = 5,
          max_unlock_attempts = 0, lockout_duration_minutes = 2000,
          heartbeat_interval_seconds = 10, p_is_active = True, priority = 0,
          p_created_at = 400\<rparr>
   \<and> snd (api_policy_detail_PUT ex_store 10 out_of_range_data)
     = \<lparr>success = True, http_status = 200\<rparr>
   \<and> map idle_timeout_seconds (policies (fst (api_policy_detail_PUT ex_store 10 out_of_range_data)))
     = [5, 300, 300]
   \<and> map max_unlock_attempts (policies (fst (api_policy_detail_PUT ex_store 10 out_of_range_data)))
     = [0, 3, 3]"
proof -
  have n: "next_pk (seq_policies ex_store) (map p_id (policies ex_store)) = 13"
    by (simp add: next_pk_def ex_store_def ex_policy_def)
  have 1: "api_policies_list_POST ex_store out_of_range_data 400 =
     (ex_store\<lparr>policies := policies ex_store
        @ [\<lparr>p_id = 13, p_name = ''kiosk'', p_scope = ''global'', idle_timeout_seconds = 5,
            max_unlock_attempts = 0, lockout_duration_minutes = 2000,
            heartbeat_interval_seconds = 10, p_is_active = True, priority = 0,
            p_created_at = 400\<rparr>],
        seq_policies := 13\<rparr>,
      \<lparr>success = True, http_status = 200\<rparr>)"
    by (simp add: api_policies_list_POST_def out_of_range_data_def dict_get_def n
        integers_fit_def db_integer_def)
  have 2: "find (\<lambda>p. p_id p = 10) (policies ex_store) = Some (ex_policy 10 ''global'' 1 100)"
    by (simp add: ex_store_def ex_policy_def)
  have 3: "policies ex_store = [ex_policy 10 ''global'' 1 100, ex_policy 11 ''group'' 5 200,
      ex_policy 12 ''device'' 0 300]"
    by (simp add: ex_store_def)
  have f: "integers_fit
     ((ex_policy 10 ''global'' 1 100)
        \<lparr>p_name := dict_get (pd_name out_of_range_data) (p_name (ex_policy 10 ''global'' 1 100)),
         p_scope := dict_get (pd_scope out_of_range_data) (p_scope (ex_policy 10 ''global'' 1 100)),
         priority := dict_get (pd_priority out_of_range_data) (priority (ex_policy 10 ''global'' 1 100)),
         p_is_active :=
           dict_get (pd_is_active out_of_range_data) (p_is_active (ex_policy 10 ''global'' 1 100)),
         idle_timeout_seconds :=
           dict_get (pd_idle_timeout_seconds out_of_range_data)
             (idle_timeout_seconds (ex_policy 10 ''global'' 1 100)),
         max_unlock_attempts :=
           dict_get (pd_max_unlock_attempts out_of_range_data)
             (max_unlock_attempts (ex_policy 10 ''global'' 1 100)),
         lockout_duration_minutes :=
           dict_get (pd_lockout_duration_minutes out_of_range_data)
             (lockout_duration_minutes (ex_policy 10 ''global'' 1 100)),
         heartbeat_interval_seconds :=
           dict_get (pd_heartbeat_interval_seconds out_of_range_data)
             (heartbeat_interval_seconds (ex_policy 10 ''global'' 1 100))\<rparr>)"
    by (simp add: integers_fit_def db_integer_def out_of_range_data_def dict_get_def ex_policy_def)
  have 4: "snd (api_policy_detail_PUT ex_store 10 out_of_range_data)
             = \<lparr>success = True, http_status = 200\<rparr>"
    by (simp add: api_policy_detail_PUT_def 2 Let_def f)
  have 5: "map idle_timeout_seconds
             (policies (fst (api_policy_detail_PUT ex_store 10 out_of_range_data))) = [5, 300, 300]"
    by (simp add: api_policy_detail_PUT_def 2 Let_def f)
       (simp add: 3 out_of_range_data_def dict_get_def ex_policy_def)
  have 6: "map max_unlock_attempts
             (policies (fst (api_policy_detail_PUT ex_store 10 out_of_range_data))) = [0, 3, 3]"
    by (simp add: api_policy_detail_PUT_def 2 Let_def f)
       (simp add: 3 out_of_range_data_def dict_get_def ex_policy_def)
  show ?thesis
    unfolding 1 4 5 6 by (simp add: field_validators_def)
qed

text \<open>An integer that does not fit its column is answered with 400 and nothing is stored.\<close>

lemma api_policies_list_POST_overflow:
  assumes "pd_idle_timeout_seconds data = Some i" and "\<not> db_integer i"
  shows "fst (api_policies_list_POST s data now) = s
         \<and> \<not> success (snd (api_policies_list_POST s data now))"
  using assms
  by (simp add: api_policies_list_POST_def Let_def integers_fit_def dict_get_def
      split: option.splits)

subsection \<open>JSON objects\<close>

lemma map_of_dict_set: "map_of (dict_set k v m) = (map_of m)(k \<mapsto> v)"
  by (induction m) (auto simp: fun_eq_iff)

subsection \<open>Device actions\<close>

text \<open>
  C7, as stated, fails: \<open>ex_action\<close> is completed, a terminal status; \<open>mark_failed\<close>
  changes its status to failed and its completion time to the new time, and an update
  through the detail endpoint sets it back to pending.
\<close>

theorem terminal_action_changes_counterexample:
  "terminal (act_status ex_action)
   \<and> act_status (mark_failed ex_action None 90) = ''failed''
   \<and> completed_at (mark_failed ex_action None 90) = Some 90
   \<and> mark_failed ex_action None 90 \<noteq> ex_action
   \<and> DeviceActionDetailView_PATCH_status ex_action ''pending''
       = Inr (ex_action\<lparr>act_status := ''pending''\<rparr>)
   \<and> ex_action\<lparr>act_status := ''pending''\<rparr> \<noteq> ex_action"
  by (simp add: terminal_def mark_failed_def ex_action_def
      DeviceActionDetailView_PATCH_status_def STATUS_CHOICES_def)

text \<open>
  C7, amended. A terminal status is not protected. \<open>mark_completed\<close> and \<open>mark_failed\<close>
  apply to an action in any status, terminal ones included: they set the status to
  completed, respectively failed, and stamp the completion time with the current time,
  leaving the device, the action type, the initiator, the reason and the creation time
  as they were. \<open>mark_completed\<close> leaves the metadata alone; \<open>mark_failed\<close> records a
  non-empty error message under the key \<open>error\<close> of the metadata, keeping every other
  key, and leaves the metadata alone when there is no message or an empty one. An update
  through the detail endpoint stores any of the six status choices over any current
  status, and answers 400 for any other value. No operation fails with an invalid
  transition.
\<close>

theorem mark_operations_unconditional:
  "act_status (mark_completed a now) = ''completed''
   \<and> completed_at (mark_completed a now) = Some now
   \<and> act_metadata (mark_completed a now) = act_metadata a
   \<and> mark_completed a now = mark_completed (a\<lparr>act_status := cur, completed_at := stamp\<rparr>) now
   \<and> act_status (mark_failed a e now) = ''failed''
   \<and> completed_at (mark_failed a e now) = Some now
   \<and> mark_failed a e now = mark_failed (a\<lparr>act_status := cur, completed_at := stamp\<rparr>) e now
   \<and> (\<forall>x \<in> {mark_completed a now, mark_failed a e now}.
         act_id x = act_id a \<and> act_device x = act_device a \<and> action_type x = action_type a
         \<and> initiated_by x = initiated_by a \<and> reason x = reason a
         \<and> act_created_at x = act_created_at a)
   \<and> (e = None \<or> e = Some [] \<longrightarrow> act_metadata (mark_failed a e now) = act_metadata a)
   \<and> (e = Some m \<and> m \<noteq> [] \<longrightarrow>
        act_metadata (mark_failed a e now) = dict_set ''error'' m (act_metadata a)
        \<and> map_of (act_metadata (mark_failed a e now)) ''error'' = Some m
        \<and> (\<forall>k. k \<noteq> ''error'' \<longrightarrow>
              map_of (act_metadata (mark_failed a e now)) k = map_of (act_metadata a) k))
   \<and> (st \<in> set STATUS_CHOICES \<longrightarrow>
        DeviceActionDetailView_PATCH_status a st = Inr (a\<lparr>act_status := st\<rparr>))
   \<and> (st \<notin> set STATUS_CHOICES \<longrightarrow> DeviceActionDetailView_PATCH_status a st = Inl Http400)"
proof -
  have 1: "mark_failed a e now = mark_failed (a\<lparr>act_status := cur, completed_at := stamp\<rparr>) e now"
    by (cases e) (simp_all add: mark_failed_def)
  have 2: "e = Some m \<and> m \<noteq> [] \<longrightarrow>
        act_metadata (mark_failed a e now) = dict_set ''error'' m (act_metadata a)
        \<and> map_of (act_metadata (mark_failed a e now)) ''error'' = Some m
        \<and> (\<forall>k. k \<noteq> ''error'' \<longrightarrow>
              map_of (act_metadata (mark_failed a e now)) k = map_of (act_metadata a) k)"
    by (simp add: mark_failed_def map_of_dict_set)
  have 3: "e = None \<or> e = Some [] \<longrightarrow> act_metadata (mark_failed a e now) = act_metadata a"
    by (auto simp: mark_failed_def)
  have 4: "\<forall>x \<in> {mark_completed a now, mark_failed a e now}.
         act_id x = act_id a \<and> act_device x = act_device a \<and> action_type x = action_type a
         \<and> initiated_by x = initiated_by a \<and> reason x = reason a
         \<and> act_created_at x = act_created_at a"
    by (simp add: mark_completed_def mark_failed_def)
  have 5: "(st \<in> set STATUS_CHOICES \<longrightarrow>
        DeviceActionDetailView_PATCH_status a st = Inr (a\<lparr>act_status := st\<rparr>))
     \<and> (st \<notin> set STATUS_CHOICES \<longrightarrow> DeviceActionDetailView_PATCH_status a st = Inl Http400)"
    by (simp add: DeviceActionDetailView_PATCH_status_def)
  have 6: "act_status (mark_completed a now) = ''completed''
     \<and> completed_at (mark_completed a now) = Some now
     \<and> act_metadata (mark_completed a now) = act_metadata a
     \<and> mark_completed a now = mark_completed (a\<lparr>act_status := cur, completed_at := stamp\<rparr>) now
     \<and> act_status (mark_failed a e now) = ''failed''
     \<and> completed_at (mark_failed a e now) = Some now"
    by (simp add: mark_completed_def mark_failed_def)
  from 1 2 3 4 5 6 show ?thesis by blast
qed

theorem mark_operations_unconditional_witness:
  "''timeout'' \<in> set STATUS_CHOICES
   \<and> terminal (act_status ex_action)
   \<and> act_status (mark_completed (mark_failed ex_action (Some ''agent unreachable'') 90) 95)
       = ''completed''
   \<and> act_metadata (mark_failed ex_action (Some ''agent unreachable'') 90)
       = [(''error'', ''agent unreachable'')]
   \<and> act_metadata (mark_failed ex_action None 90) = []
   \<and> DeviceActionDetailView_PATCH_status ex_action ''timeout''
       = Inr (ex_action\<lparr>act_status := ''timeout''\<rparr>)"
proof -
  have h: "''timeout'' \<in> set STATUS_CHOICES" by (simp add: STATUS_CHOICES_def)
  have t: "terminal (act_status ex_action)" by (simp add: terminal_def ex_action_def)
  have m: "act_metadata ex_action = []" by (simp add: ex_action_def)
  have ne: "''agent unreachable'' \<noteq> []" by simp
  from mark_operations_unconditional
         [where a = "mark_failed ex_action (Some ''agent unreachable'') 90" and now = 95
            and cur = "''completed''" and stamp = None and e = None
            and m = "''agent unreachable''" and st = "''timeout''"]
  have 1: "act_status (mark_completed (mark_failed ex_action (Some ''agent unreachable'') 90) 95)
           = ''completed''"
    by blast
  from mark_operations_unconditional
         [where a = ex_action and now = 90 and cur = "''completed''" and stamp = None
            and e = "Some ''agent unreachable''" and m = "''agent unreachable''"
            and st = "''timeout''"] ne
  have "act_metadata (mark_failed ex_action (Some ''agent unreachable'') 90)
          = dict_set ''error'' ''agent unreachable'' (act_metadata ex_action)"
    by blast
  then have 2: "act_metadata (mark_failed ex_action (Some ''agent unreachable'') 90)
          = [(''error'', ''agent unreachable'')]"
    by (simp add: m)
  note T = mark_operations_unconditional
         [where a = ex_action and now = 90 and cur = "''completed''" and stamp = None
            and e = None and m = "''agent unreachable''" and st = "''timeout''"]
  have "act_metadata (mark_failed ex_action None 90) = act_metadata ex_action"
    using T by blast
  then have 3: "act_metadata (mark_failed ex_action None 90) = []"
    by (simp only: m)
  have 4: "DeviceActionDetailView_PATCH_status ex_action ''timeout''
         = Inr (ex_action\<lparr>act_status := ''timeout''\<rparr>)"
    using T h by blast
  from h t 1 2 3 4 show ?thesis by (intro conjI)
qed

subsection \<open>Heartbeats\<close>

lemma dict_update_keeps:
  "k \<notin> fst ` set other \<Longrightarrow> map_of (dict_update d other) k = map_of d k"
  unfolding dict_update_def
proof (induction other arbitrary: d)
  case Nil
  then show ?case by simp
next
  case (Cons kv other)
  obtain k' v' where kv: "kv = (k', v')" by (cases kv)
  with Cons.prems have "k \<noteq> k'" and "k \<notin> fst ` set other" by auto
  then show ?case using Cons.IH[of "dict_set k' v' d"] kv
    by (simp add: map_of_dict_set)
qed

text \<open>
  C8, as stated, fails: the heartbeat endpoint merges nothing. A heartbeat for
  \<open>ex_device\<close>, whose free-form \<open>hardware_info\<close> is \<open>{cpu: i5}\<close>, reporting the metadata
  \<open>{ram: 8GB}\<close> is answered with 200 and leaves \<open>hardware_info\<close> as it was, where a merge
  would give \<open>{cpu: i5, ram: 8GB}\<close>; the reported metadata is stored as it is in a new
  heartbeat row.
\<close>

theorem heartbeat_metadata_not_merged_counterexample:
  "snd (device_heartbeat ex_store 101 (Some ex_heartbeat) 500) = 200
   \<and> hardware_info ex_device = [(''cpu'', ''i5'')]
   \<and> hd_metadata ex_heartbeat = Some [(''ram'', ''8GB'')]
   \<and> map hardware_info (devices (fst (device_heartbeat ex_store 101 (Some ex_heartbeat) 500)))
       = [[(''cpu'', ''i5'')]]
   \<and> dict_update [(''cpu'', ''i5'')] [(''ram'', ''8GB'')] = [(''cpu'', ''i5''), (''ram'', ''8GB'')]
   \<and> map hb_metadata (heartbeats (fst (device_heartbeat ex_store 101 (Some ex_heartbeat) 500)))
       = [[(''ram'', ''8GB'')]]"
proof -
  have g: "get_device ex_store 101 = Some ex_device"
    by (simp add: get_device_def ex_store_def ex_device_def)
  have d: "devices ex_store = [ex_device]" by (simp add: ex_store_def)
  have h: "heartbeats ex_store = []" by (simp add: ex_store_def)
  show ?thesis
    by (simp add: device_heartbeat_def g Let_def device_save_def d h dict_update_def
        ex_heartbeat_def dict_get_def)
       (simp add: ex_device_def)
qed

text \<open>
  C8, amended. A heartbeat for an unknown device ID is answered with 404 and changes
  nothing. For a known device, an invalid body is answered with 400 and changes nothing;
  a valid body is answered with 200, sets the device's last-seen time to the current
  time and overwrites its status and lock flag with the reported values, leaving every
  other field of the device (its free-form \<open>hardware_info\<close> included) and every other
  device as they were, and appends one heartbeat row that carries the reported metadata
  unmerged. The model method \<open>update_heartbeat\<close> is the one that merges: it sets the
  last-seen time and the status \<open>online\<close>, leaves the lock flag alone, and merges reported
  \<open>hardware_info\<close> into the device's (keys that are not reported keep their values).
\<close>

theorem device_heartbeat_records:
  "(get_device s did = None \<longrightarrow> device_heartbeat s did body now = (s, 404))
   \<and> (get_device s did = Some d \<longrightarrow>
        device_heartbeat s did None now = (s, 400)
        \<and> snd (device_heartbeat s did (Some data) now) = 200
        \<and> devices (fst (device_heartbeat s did (Some data) now))
            = map (\<lambda>x. if d_pk x = d_pk d
                        then d\<lparr>d_status := hd_status data, is_locked := hd_is_locked data,
                               last_seen := Some now\<rparr>
                        else x) (devices s)
        \<and> heartbeats (fst (device_heartbeat s did (Some data) now))
            = heartbeats s @
              [\<lparr>hb_device = d_pk d, hb_timestamp = now, hb_status = hd_status data,
                hb_is_locked = hd_is_locked data,
                hb_agent_version = dict_get (hd_agent_version data) '''',
                hb_metadata = dict_get (hd_metadata data) []\<rparr>])
   \<and> last_seen (update_heartbeat d agent now) = Some now
   \<and> d_status (update_heartbeat d agent now) = ''online''
   \<and> is_locked (update_heartbeat d agent now) = is_locked d
   \<and> (ad_hardware_info ad = Some h \<longrightarrow>
        hardware_info (update_heartbeat d (Some ad) now) = dict_update (hardware_info d) h
        \<and> (\<forall>k. k \<notin> fst ` set h \<longrightarrow>
              map_of (hardware_info (update_heartbeat d (Some ad) now)) k
              = map_of (hardware_info d) k))"
proof -
  have 1: "get_device s did = None \<longrightarrow> device_heartbeat s did body now = (s, 404)"
    by (simp add: device_heartbeat_def)
  have 2: "get_device s did = Some d \<longrightarrow>
        device_heartbeat s did None now = (s, 400)
        \<and> snd (device_heartbeat s did (Some data) now) = 200
        \<and> devices (fst (device_heartbeat s did (Some data) now))
            = map (\<lambda>x. if d_pk x = d_pk d
                        then d\<lparr>d_status := hd_status data, is_locked := hd_is_locked data,
                               last_seen := Some now\<rparr>
                        else x) (devices s)
        \<and> heartbeats (fst (device_heartbeat s did (Some data) now))
            = heartbeats s @
              [\<lparr>hb_device = d_pk d, hb_timestamp = now, hb_status = hd_status data,
                hb_is_locked = hd_is_locked data,
                hb_agent_version = dict_get (hd_agent_version data) '''',
                hb_metadata = dict_get (hd_metadata data) []\<rparr>]"
    by (simp add: device_heartbeat_def Let_def device_save_def)
  have 3: "last_seen (update_heartbeat d agent now) = Some now
     \<and> d_status (update_heartbeat d agent now) = ''online''
     \<and> is_locked (update_heartbeat d agent now) = is_locked d"
    by (simp add: update_heartbeat_def Let_def split: option.splits)
  have 4: "ad_hardware_info ad = Some h \<longrightarrow>
        hardware_info (update_heartbeat d (Some ad) now) = dict_update (hardware_info d) h
        \<and> (\<forall>k. k \<notin> fst ` set h \<longrightarrow>
              map_of (hardware_info (update_heartbeat d (Some ad) now)) k
              = map_of (hardware_info d) k)"
    by (simp add: update_heartbeat_def Let_def dict_update_keeps)
  from 1 2 3 4 show ?thesis by blast
qed

theorem device_heartbeat_records_witness:
  "get_device ex_store 101 = Some ex_device \<and> get_device ex_store 999 = None
   \<and> device_heartbeat ex_store 999 (Some ex_heartbeat) 500 = (ex_store, 404)
   \<and> snd (device_heartbeat ex_store 101 (Some ex_heartbeat) 500) = 200
   \<and> map last_seen (devices (fst (device_heartbeat ex_store 101 (Some ex_heartbeat) 500)))
       = [Some 500]
   \<and> hardware_info (update_heartbeat ex_device
         (Some \<lparr>ad_agent_version = None, ad_hardware_info = Some [(''ram'', ''8GB'')],
                ad_ip_address = None\<rparr>) 500)
       = [(''cpu'', ''i5''), (''ram'', ''8GB'')]"
proof -
  have g: "get_device ex_store 101 = Some ex_device"
    by (simp add: get_device_def ex_store_def ex_device_def)
  have n: "get_device ex_store 999 = None"
    by (simp add: get_device_def ex_store_def ex_device_def)
  have a: "ad_hardware_info \<lparr>ad_agent_version = None, ad_hardware_info = Some [(''ram'', ''8GB'')],
                ad_ip_address = None\<rparr> = Some [(''ram'', ''8GB'')]"
    by simp
  have d: "devices ex_store = [ex_device]" by (simp add: ex_store_def)
  have u: "dict_update (hardware_info ex_device) [(''ram'', ''8GB'')]
           = [(''cpu'', ''i5''), (''ram'', ''8GB'')]"
    by (simp add: dict_update_def ex_device_def)
  note t1 = device_heartbeat_records [of ex_store 999 "Some ex_heartbeat" 500 ex_device
      ex_heartbeat None
      "\<lparr>ad_agent_version = None, ad_hardware_info = Some [(''ram'', ''8GB'')], ad_ip_address = None\<rparr>"
      "[(''ram'', ''8GB'')]"]
  note t2 = device_heartbeat_records [of ex_store 101 "Some ex_heartbeat" 500 ex_device
      ex_heartbeat None
      "\<lparr>ad_agent_version = None, ad_hardware_info = Some [(''ram'', ''8GB'')], ad_ip_address = None\<rparr>"
      "[(''ram'', ''8GB'')]"]
  have 1: "device_heartbeat ex_store 999 (Some ex_heartbeat) 500 = (ex_store, 404)"
    using t1 n by blast
  have 2: "snd (device_heartbeat ex_store 101 (Some ex_heartbeat) 500) = 200"
    using t2 g by blast
  have "devices (fst (device_heartbeat ex_store 101 (Some ex_heartbeat) 500))
            = map (\<lambda>x. if d_pk x = d_pk ex_device
                        then ex_device\<lparr>d_status := hd_status ex_heartbeat,
                               is_locked := hd_is_locked ex_heartbeat,
                               last_seen := Some 500\<rparr>
                        else x) (devices ex_store)"
    using t2 g by blast
  then have 3: "map last_seen (devices (fst (device_heartbeat ex_store 101 (Some ex_heartbeat) 500)))
       = [Some 500]"
    by (simp add: d)
  have 4: "hardware_info (update_heartbeat ex_device
         (Some \<lparr>ad_agent_version = None, ad_hardware_info = Some [(''ram'', ''8GB'')],
                ad_ip_address = None\<rparr>) 500)
       = [(''cpu'', ''i5''), (''ram'', ''8GB'')]"
    using t2 a u by simp
  from g n 1 2 3 4 show ?thesis by simp
qed

subsection \<open>Registration\<close>

lemma fold_max_ge: "a \<le> fold max ids (a::nat)" "x \<in> set ids \<Longrightarrow> x \<le> fold max ids a"
proof (induction ids arbitrary: a)
  case Nil
  { case 1 show ?case by simp }
  { case 2 then show ?case by simp }
next
  case (Cons i ids)
  { case 1
    have "max i a \<le> fold max ids (max i a)" by (rule Cons.IH(1))
    then show ?case by simp }
  { case 2
    show ?case
    proof (cases "x = i")
      case True
      have "max i a \<le> fold max ids (max i a)" by (rule Cons.IH(1))
      with True show ?thesis by simp
    next
      case False
      with 2 have "x \<in> set ids" by simp
      then have "x \<le> fold max ids (max i a)" by (rule Cons.IH(2))
      then show ?thesis by simp
    qed }
qed

lemma next_pk_fresh: "next_pk seq ids \<notin> set ids" "seq < next_pk seq ids"
proof -
  show "next_pk seq ids \<notin> set ids"
  proof
    assume "next_pk seq ids \<in> set ids"
    then have "next_pk seq ids \<le> fold max ids 0" by (rule fold_max_ge(2))
    then show False by (simp add: next_pk_def)
  qed
  show "seq < next_pk seq ids" by (simp add: next_pk_def)
qed

text \<open>
  C9, as stated, fails: \<open>ex_store\<close> holds an active device with hostname \<open>pc-1.lan\<close> and
  MAC address \<open>00:11:22:33:44:55\<close>; registering a device with the same hostname and MAC
  address succeeds, and the store then holds two active devices with that natural key.
\<close>

theorem register_duplicate_identity_counterexample:
  "map hostname (devices ex_store) = [''pc-1.lan'']
   \<and> map mac_address (devices ex_store) = [''00:11:22:33:44:55'']
   \<and> map d_is_active (devices ex_store) = [True]
   \<and> snd (DeviceListCreateView_POST ex_store ex_admin ex_registration 102 ''tok'' 600)
       = Inr \<lparr>d_pk = 2, device_id = 102, d_name = ''pc-1'', hostname = ''pc-1.lan'',
              ip_address = None, mac_address = ''00:11:22:33:44:55'',
              os_version = ''Windows 11'', agent_version = ''1.0'', d_status = ''offline'',
              is_locked = False, last_seen = None, registered_at = 600,
              last_lock_time = None, last_unlock_time = None, hardware_info = [],
              d_is_active = True\<rparr>
   \<and> map hostname
         (devices (fst (DeviceListCreateView_POST ex_store ex_admin ex_registration 102 ''tok'' 600)))
       = [''pc-1.lan'', ''pc-1.lan'']
   \<and> map mac_address
         (devices (fst (DeviceListCreateView_POST ex_store ex_admin ex_registration 102 ''tok'' 600)))
       = [''00:11:22:33:44:55'', ''00:11:22:33:44:55'']
   \<and> map d_is_active
         (devices (fst (DeviceListCreateView_POST ex_store ex_admin ex_registration 102 ''tok'' 600)))
       = [True, True]"
proof -
  have d: "devices ex_store = [ex_device]" by (simp add: ex_store_def)
  have t: "device_tokens ex_store = []" by (simp add: ex_store_def)
  have n: "next_pk (seq_devices ex_store) (map d_pk (devices ex_store)) = 2"
    by (simp add: d next_pk_def ex_device_def) (simp add: ex_store_def)
  have i: "map device_id (devices ex_store) = [101]" by (simp add: d ex_device_def)
  show ?thesis
    by (simp add: DeviceListCreateView_POST_def Let_def new_device_def n i t ex_registration_def)
       (simp add: d ex_device_def)
qed

text \<open>
  C9, amended. Registering a device with a valid body makes no duplicate-identity
  check: whenever the freshly generated ID is not yet in the table, a new active device
  is stored, also when an active device with the same hostname and MAC address exists.
  The new device carries the generated ID, a primary key that no device has, the
  submitted name, hostname and MAC address, no last-seen time and the current time as
  registration time, and is appended to the devices; it is reported when the generated
  token is new as well (a token already in use is answered with 500 after the device is
  stored). A generated ID that is already in the table is answered with 500 and stores
  nothing, so every reported device has an ID that no device had before, and IDs that
  were unique stay unique.
\<close>

theorem register_without_identity_check:
  "(uuid \<in> set (map device_id (devices s)) \<longrightarrow>
      DeviceListCreateView_POST s usr data uuid token now = (s, Inl Http500))
   \<and> (uuid \<notin> set (map device_id (devices s)) \<longrightarrow>
      devices (fst (DeviceListCreateView_POST s usr data uuid token now))
        = devices s @ [new_device s data uuid now]
      \<and> (token \<notin> set (map snd (device_tokens s)) \<longrightarrow>
            snd (DeviceListCreateView_POST s usr data uuid token now)
              = Inr (new_device s data uuid now))
      \<and> (token \<in> set (map snd (device_tokens s)) \<longrightarrow>
            snd (DeviceListCreateView_POST s usr data uuid token now) = Inl Http500))
   \<and> (snd (DeviceListCreateView_POST s usr data uuid token now) = Inr dev \<longrightarrow>
      dev = new_device s data uuid now
      \<and> device_id dev = uuid
      \<and> uuid \<notin> set (map device_id (devices s))
      \<and> devices (fst (DeviceListCreateView_POST s usr data uuid token now)) = devices s @ [dev])
   \<and> (distinct (map device_id (devices s)) \<longrightarrow>
      distinct (map device_id
        (devices (fst (DeviceListCreateView_POST s usr data uuid token now)))))
   \<and> device_id (new_device s data uuid now) = uuid
   \<and> d_pk (new_device s data uuid now) \<notin> set (map d_pk (devices s))
   \<and> seq_devices s < d_pk (new_device s data uuid now)
   \<and> d_name (new_device s data uuid now) = cd_name data
   \<and> hostname (new_device s data uuid now) = cd_hostname data
   \<and> mac_address (new_device s data uuid now) = cd_mac_address data
   \<and> d_is_active (new_device s data uuid now)
   \<and> last_seen (new_device s data uuid now) = None
   \<and> registered_at (new_device s data uuid now) = now"
proof -
  have 1: "uuid \<in> set (map device_id (devices s)) \<longrightarrow>
      DeviceListCreateView_POST s usr data uuid token now = (s, Inl Http500)"
    by (simp add: DeviceListCreateView_POST_def)
  have 2: "uuid \<notin> set (map device_id (devices s)) \<longrightarrow>
      devices (fst (DeviceListCreateView_POST s usr data uuid token now))
        = devices s @ [new_device s data uuid now]
      \<and> (token \<notin> set (map snd (device_tokens s)) \<longrightarrow>
            snd (DeviceListCreateView_POST s usr data uuid token now)
              = Inr (new_device s data uuid now))
      \<and> (token \<in> set (map snd (device_tokens s)) \<longrightarrow>
            snd (DeviceListCreateView_POST s usr data uuid token now) = Inl Http500)"
    by (simp add: DeviceListCreateView_POST_def Let_def)
  have 3: "snd (DeviceListCreateView_POST s usr data uuid token now) = Inr dev \<longrightarrow>
      dev = new_device s data uuid now
      \<and> device_id dev = uuid
      \<and> uuid \<notin> set (map device_id (devices s))
      \<and> devices (fst (DeviceListCreateView_POST s usr data uuid token now)) = devices s @ [dev]"
    by (auto simp: DeviceListCreateView_POST_def Let_def new_device_def split: if_splits)
  have 4: "distinct (map device_id (devices s)) \<longrightarrow>
      distinct (map device_id
        (devices (fst (DeviceListCreateView_POST s usr data uuid token now))))"
    by (auto simp: DeviceListCreateView_POST_def Let_def new_device_def)
  have 5: "d_pk (new_device s data uuid now) \<notin> set (map d_pk (devices s))
     \<and> seq_devices s < d_pk (new_device s data uuid now)"
    using next_pk_fresh [of "seq_devices s" "map d_pk (devices s)"]
    by (simp add: new_device_def)
  have 6: "device_id (new_device s data uuid now) = uuid
     \<and> d_name (new_device s data uuid now) = cd_name data
     \<and> hostname (new_device s data uuid now) = cd_hostname data
     \<and> mac_address (new_device s data uuid now) = cd_mac_address data
     \<and> d_is_active (new_device s data uuid now)
     \<and> last_seen (new_device s data uuid now) = None
     \<and> registered_at (new_device s data uuid now) = now"
    by (simp add: new_device_def)
  from 1 2 3 4 5 6 show ?thesis by blast
qed

theorem register_without_identity_check_witness:
  "102 \<notin> set (map device_id (devices ex_store))
   \<and> ''tok'' \<notin> set (map snd (device_tokens ex_store))
   \<and> distinct (map device_id (devices ex_store))
   \<and> snd (DeviceListCreateView_POST ex_store ex_admin ex_registration 102 ''tok'' 600)
       = Inr (new_device ex_store ex_registration 102 600)
   \<and> hostname (new_device ex_store ex_registration 102 600) = ''pc-1.lan''
   \<and> distinct (map device_id
        (devices (fst (DeviceListCreateView_POST ex_store ex_admin ex_registration 102 ''tok'' 600))))
   \<and> 101 \<in> set (map device_id (devices ex_store))
   \<and> DeviceListCreateView_POST ex_store ex_admin ex_registration 101 ''tok'' 600
       = (ex_store, Inl Http500)"
proof -
  have h1: "102 \<notin> set (map device_id (devices ex_store))"
    by (simp add: ex_store_def ex_device_def)
  have h2: "''tok'' \<notin> set (map snd (device_tokens ex_store))"
    by (simp add: ex_store_def)
  have h3: "distinct (map device_id (devices ex_store))"
    by (simp add: ex_store_def)
  have h4: "101 \<in> set (map device_id (devices ex_store))"
    by (simp add: ex_store_def ex_device_def)
  note T = register_without_identity_check
      [where s = ex_store and usr = ex_admin and data = ex_registration and uuid = 102
         and token = "''tok''" and now = 600
         and dev = "new_device ex_store ex_registration 102 600"]
  note U = register_without_identity_check
      [where s = ex_store and usr = ex_admin and data = ex_registration and uuid = 101
         and token = "''tok''" and now = 600
         and dev = "new_device ex_store ex_registration 101 600"]
  have 1: "snd (DeviceListCreateView_POST ex_store ex_admin ex_registration 102 ''tok'' 600)
       = Inr (new_device ex_store ex_registration 102 600)"
    using T h1 h2 by blast
  have "hostname (new_device ex_store ex_registration 102 600) = cd_hostname ex_registration"
    using T by blast
  then have 2: "hostname (new_device ex_store ex_registration 102 600) = ''pc-1.lan''"
    by (simp add: ex_registration_def)
  have 3: "distinct (map device_id
        (devices (fst (DeviceListCreateView_POST ex_store ex_admin ex_registration 102 ''tok'' 600))))"
    using T h3 by blast
  have 4: "DeviceListCreateView_POST ex_store ex_admin ex_registration 101 ''tok'' 600
       = (ex_store, Inl Http500)"
    using U h4 by blast
  from h1 h2 h3 1 2 3 h4 4 show ?thesis by (intro conjI)
qed

subsection \<open>Locking and unlocking\<close>

lemma details_no_keyword: "''details'' \<notin> set Event_keywords"
  by (simp add: Event_keywords_def Event_fields_def)

lemma Event_create_details_raises:
  assumes "''details'' \<in> set (map fst kwargs)"
  shows "\<exists>e. Event_objects_create s dev kwargs = Inl e"
proof (cases "user_fk (dict_get (map_of kwargs ''user'') PyNone)")
  case (Inl e)
  then show ?thesis by (simp add: Event_objects_create_def)
next
  case (Inr u)
  have "list_ex (\<lambda>k. k \<notin> set Event_keywords) (map fst kwargs)"
    unfolding list_ex_iff using assms details_no_keyword by blast
  with Inr show ?thesis by (simp add: Event_objects_create_def)
qed

lemma lock_screen_raises: "\<exists>e. snd (lock_screen s self rsn adm now) = Inl e"
proof -
  define s1 where "s1 = s\<lparr>devices :=
                   map (\<lambda>x. if d_pk x = d_pk self
                             then x\<lparr>is_locked := True, last_lock_time := Some now,
                                    d_status := ''locked''\<rparr>
                             else x) (devices s)\<rparr>"
  show ?thesis
  proof (cases "DeviceAction_objects_create s1 (d_pk self) ''lock'' adm rsn now")
    case (Inl e)
    then show ?thesis by (simp add: lock_screen_def s1_def)
  next
    case (Inr s2)
    have "\<exists>e. Event_objects_create s2 (d_pk self)
                     [(''user'', adm), (''event_type'', PyStr ''lock''),
                      (''details'', PyStr (''Screen locked: '' @ py_str rsn)),
                      (''severity'', PyStr ''info'')] = Inl e"
      by (rule Event_create_details_raises) simp
    then obtain e where "Event_objects_create s2 (d_pk self)
                     [(''user'', adm), (''event_type'', PyStr ''lock''),
                      (''details'', PyStr (''Screen locked: '' @ py_str rsn)),
                      (''severity'', PyStr ''info'')] = Inl e" ..
    with Inr show ?thesis by (simp add: lock_screen_def s1_def)
  qed
qed

lemma unlock_screen_raises: "\<exists>e. snd (unlock_screen s self adm now) = Inl e"
proof -
  define s1 where "s1 = s\<lparr>devices :=
                   map (\<lambda>x. if d_pk x = d_pk self
                             then x\<lparr>is_locked := False, last_unlock_time := Some now,
                                    d_status := (if is_online self now then ''online''
                                                 else ''offline'')\<rparr>
                             else x) (devices s)\<rparr>"
  show ?thesis
  proof (cases "DeviceAction_objects_create s1 (d_pk self) ''unlock'' adm (PyStr '''') now")
    case (Inl e)
    then show ?thesis by (simp add: unlock_screen_def s1_def)
  next
    case (Inr s2)
    have "\<exists>e. Event_objects_create s2 (d_pk self)
                     [(''user'', adm), (''event_type'', PyStr ''unlock''),
                      (''details'', PyStr ''Screen unlocked by administrator''),
                      (''severity'', PyStr ''info'')] = Inl e"
      by (rule Event_create_details_raises) simp
    then obtain e where "Event_objects_create s2 (d_pk self)
                     [(''user'', adm), (''event_type'', PyStr ''unlock''),
                      (''details'', PyStr ''Screen unlocked by administrator''),
                      (''severity'', PyStr ''info'')] = Inl e" ..
    with Inr show ?thesis by (simp add: unlock_screen_def s1_def)
  qed
qed

text \<open>
  C10. For every registered device and every caller whose role passes the permission
  check, the endpoints \<open>device_lock\<close> and \<open>device_unlock\<close> answer with status 500 and
  never report success. Every invocation of \<open>lock_screen\<close> and of \<open>unlock_screen\<close>, with
  whatever arguments, raises an exception: both construct an \<open>Event\<close> with the keyword
  \<open>details\<close>, which is no keyword of \<open>Event\<close> (its field is \<open>message\<close>). The view passes
  the user first and the reason second, which binds the user to the parameter \<open>reason\<close>
  of \<open>lock_screen\<close> and the reason to \<open>admin_user\<close>.
\<close>

theorem lock_unlock_always_500:
  assumes "get_device s did = Some d"
      and "role (req_user rq) \<in> set [''superadmin'', ''security'', ''it_admin'']"
  shows "snd (device_lock s rq did now) = \<lparr>success = False, http_status = 500\<rparr>
     \<and> snd (device_unlock s rq did now) = \<lparr>success = False, http_status = 500\<rparr>
     \<and> (\<exists>e. snd (lock_screen s d rsn adm now) = Inl e)
     \<and> (\<exists>e. snd (unlock_screen s d adm now) = Inl e)
     \<and> ''details'' \<notin> set Event_keywords \<and> ''message'' \<in> set Event_fields
     \<and> call_lock_screen s d [PyUser (req_user rq), r] now
         = lock_screen s d (PyUser (req_user rq)) r now"
proof -
  have 1: "snd (device_lock s rq did now) = \<lparr>success = False, http_status = 500\<rparr>"
    using assms
    by (simp add: device_lock_def Let_def result_id_def split: prod.splits sum.splits)
  have 2: "snd (device_unlock s rq did now) = \<lparr>success = False, http_status = 500\<rparr>"
    using assms
    by (simp add: device_unlock_def Let_def result_id_def split: prod.splits sum.splits)
  have 3: "''message'' \<in> set Event_fields" by (simp add: Event_fields_def)
  show ?thesis
    using 1 2 3 lock_screen_raises unlock_screen_raises details_no_keyword by simp
qed

theorem lock_unlock_always_500_witness:
  "get_device ex_store 101 = Some ex_device
   \<and> role (req_user \<lparr>req_user = ex_admin, req_reason = None\<rparr>)
         \<in> set [''superadmin'', ''security'', ''it_admin'']
   \<and> snd (device_lock ex_store \<lparr>req_user = ex_admin, req_reason = None\<rparr> 101 700)
       = \<lparr>success = False, http_status = 500\<rparr>
   \<and> snd (device_unlock ex_store \<lparr>req_user = ex_admin, req_reason = None\<rparr> 101 700)
       = \<lparr>success = False, http_status = 500\<rparr>"
proof -
  have h1: "get_device ex_store 101 = Some ex_device"
    by (simp add: get_device_def ex_store_def ex_device_def)
  have h2: "role (req_user \<lparr>req_user = ex_admin, req_reason = None\<rparr>)
         \<in> set [''superadmin'', ''security'', ''it_admin'']"
    by (simp add: ex_admin_def)
  from lock_unlock_always_500 [OF h1 h2, of 700] h1 h2 show ?thesis by blast
qed

end
